theory Spec2Isabelle
  imports Complex_Main "HOL-Library.Word"
begin

section \<open>JavaScript values\<close>

text \<open>
  Markup vocabulary (element names, attribute names and attribute values) is kept as
  \<open>string\<close>.  Run text is a JavaScript string whose content may hold any UTF-16 code
  unit (the extractor tests for U+2028 and U+2029), so it is a list of 16-bit words.
\<close>

type_synonym ustring = "16 word list"

definition ustr :: "string \<Rightarrow> ustring" where
  "ustr s = map (\<lambda>c. of_char c) s"

text \<open>
  A JavaScript number is modelled as an exact real number or \<open>NaN\<close>: rounding of doubles,
  infinities and the sign of zero are left out.
\<close>

datatype jsnum = NaN | Number real

fun jdiv :: "jsnum \<Rightarrow> real \<Rightarrow> jsnum" where
  "jdiv NaN d = NaN"
| "jdiv (Number a) d = Number (a / d)"

fun jmul :: "jsnum \<Rightarrow> real \<Rightarrow> jsnum" where
  "jmul NaN d = NaN"
| "jmul (Number a) d = Number (a * d)"

text \<open>\<open>Math.round\<close>: the nearest integer, ties towards plus infinity.\<close>

fun Math_round :: "jsnum \<Rightarrow> jsnum" where
  "Math_round NaN = NaN"
| "Math_round (Number a) = Number (of_int \<lfloor>a + 1 / 2\<rfloor>)"

text \<open>Truthiness of a number: neither zero nor \<open>NaN\<close>.\<close>

fun truthy_num :: "jsnum \<Rightarrow> bool" where
  "truthy_num NaN = False"
| "truthy_num (Number a) = (a \<noteq> 0)"

text \<open>\<open>a > b\<close> on numbers: false as soon as one side is \<open>NaN\<close>.\<close>

fun jgt :: "jsnum \<Rightarrow> real \<Rightarrow> bool" where
  "jgt NaN b = False"
| "jgt (Number a) b = (a > b)"

text \<open>Truthiness of an optional string: defined and not empty.\<close>

fun truthy_str :: "'a list option \<Rightarrow> bool" where
  "truthy_str None = False"
| "truthy_str (Some s) = (s \<noteq> [])"

subsection \<open>\<open>parseInt(s, 10)\<close>\<close>

definition isStrWhiteSpace :: "char \<Rightarrow> bool" where
  "isStrWhiteSpace c = (of_char c \<in> {9, 10, 11, 12, 13, 32, 160 :: nat})"

definition isDigit :: "char \<Rightarrow> bool" where
  "isDigit c = (48 \<le> (of_char c :: nat) \<and> (of_char c :: nat) \<le> 57)"

definition digitsValue :: "string \<Rightarrow> nat" where
  "digitsValue ds = foldl (\<lambda>a c. 10 * a + (of_char c - 48)) 0 ds"

text \<open>
  Leading white space is skipped, one sign is read, then the longest run of decimal
  digits; with no digit the result is \<open>NaN\<close>.  Anything after the digits is ignored.
\<close>

definition parseInt :: "string \<Rightarrow> jsnum" where
  "parseInt str =
     (let s = dropWhile isStrWhiteSpace str;
          neg = (s \<noteq> [] \<and> hd s = CHR ''-'');
          s' = (if s \<noteq> [] \<and> (hd s = CHR ''-'' \<or> hd s = CHR ''+'') then tl s else s);
          ds = takeWhile isDigit s'
      in if ds = [] then NaN
         else Number (if neg then - of_nat (digitsValue ds) else of_nat (digitsValue ds)))"

section \<open>The XML tree read by the extractor\<close>

text \<open>
  The extractor reads a DOM: an element has a local name, attributes and child nodes.
  An attribute carries its qualified name, its namespace (if any), its local name and
  its value.
\<close>

datatype dattr = DAttr (qualifiedName: string) (namespaceURI: "string option")
                       (attrLocalName: string) (attrValue: string)

datatype node =
    Element (localName: string) (attributes: "dattr list") (childNodes: "node list")
  | Text ustring
  | Comment ustring

fun isElement :: "node \<Rightarrow> bool" where
  "isElement (Element n as cs) = True"
| "isElement _ = False"

text \<open>\<open>textContent\<close>: the text of all descendants in document order, comments left out.\<close>

fun textContent :: "node \<Rightarrow> ustring" where
  "textContent (Text t) = t"
| "textContent (Comment t) = []"
| "textContent (Element n as cs) = concat (map textContent cs)"

text \<open>\<open>XmlParser.elements\<close>: the child elements, all of them or those of one local name.\<close>

definition elements :: "node \<Rightarrow> string option \<Rightarrow> node list" where
  "elements elem name =
     filter (\<lambda>child. isElement child \<and> (\<not> truthy_str name \<or> Some (localName child) = name))
            (case elem of Element n as cs \<Rightarrow> cs | _ \<Rightarrow> [])"

definition element :: "node \<Rightarrow> string \<Rightarrow> node option" where
  "element elem name =
     (case elements elem (Some name) of [] \<Rightarrow> None | e # _ \<Rightarrow> Some e)"

definition getNamedItem :: "dattr list \<Rightarrow> string \<Rightarrow> dattr option" where
  "getNamedItem as q = find (\<lambda>a. qualifiedName a = q) as"

definition getNamedItemNS :: "dattr list \<Rightarrow> string option \<Rightarrow> string \<Rightarrow> dattr option" where
  "getNamedItemNS as ns l = find (\<lambda>a. namespaceURI a = ns \<and> attrLocalName a = l) as"

definition ns_w :: string where
  "ns_w = ''http://schemas.openxmlformats.org/wordprocessingml/2006/main''"

definition ns_a :: string where
  "ns_a = ''http://schemas.openxmlformats.org/drawingml/2006/main''"

definition ns_r :: string where
  "ns_r = ''http://schemas.openxmlformats.org/officeDocument/2006/relationships''"

definition ns_pr :: string where
  "ns_pr = ''http://schemas.openxmlformats.org/package/2006/relationships''"

definition commonNamespaces :: "string \<Rightarrow> string list option" where
  "commonNamespaces l =
     (if l = ''val'' then Some [ns_w, ns_a]
      else if l \<in> set [''w'', ''type'', ''sz'', ''name'', ''color'', ''fill'', ''styleId'',
                         ''default'', ''before'', ''after'', ''line'', ''lineRule'', ''left'',
                         ''right'', ''firstLine'', ''hanging'', ''ascii'', ''hAnsi'',
                         ''eastAsia'', ''cs'', ''asciiTheme'', ''eastAsiaTheme'',
                         ''hAnsiTheme'', ''cstheme'', ''themeColor'', ''themeShade'',
                         ''themeTint'', ''abstractNumId'', ''numId'', ''ilvl'', ''hint'',
                         ''pos'']
      then Some [ns_w]
      else if l = ''typeface'' then Some [ns_a]
      else if l = ''embed'' then Some [ns_r, ns_pr]
      else if l = ''link'' then Some [ns_r]
      else None)"

text \<open>
  \<open>XmlParser.attr\<close> of the DOM-based parser: the attribute by its plain name, then in no
  namespace, then in the namespace the caller gave, then in the namespaces the table
  lists for that local name.
\<close>

definition attr_ns :: "node \<Rightarrow> string \<Rightarrow> string option \<Rightarrow> string option" where
  "attr_ns elem l namespace =
     (let as = (case elem of Element n as cs \<Rightarrow> as | _ \<Rightarrow> []) in
      case getNamedItem as l of Some a \<Rightarrow> Some (attrValue a) | None \<Rightarrow>
      (case getNamedItemNS as None l of Some a \<Rightarrow> Some (attrValue a) | None \<Rightarrow>
      (case (if truthy_str namespace then getNamedItemNS as namespace l else None) of
         Some a \<Rightarrow> Some (attrValue a) | None \<Rightarrow>
      (case commonNamespaces l of None \<Rightarrow> None
       | Some nss \<Rightarrow>
           (case List.map_filter (\<lambda>ns. getNamedItemNS as (Some ns) l) nss of
              [] \<Rightarrow> None | a # _ \<Rightarrow> Some (attrValue a))))))"

definition attr :: "node \<Rightarrow> string \<Rightarrow> string option" where
  "attr elem l = attr_ns elem l None"

definition boolAttr :: "node \<Rightarrow> string \<Rightarrow> bool \<Rightarrow> bool" where
  "boolAttr elem l defaultValue =
     (case attr elem l of None \<Rightarrow> defaultValue
      | Some val \<Rightarrow>
          if val = ''1'' \<or> val = ''true'' \<or> val = ''on'' then True
          else if val = ''0'' \<or> val = ''false'' \<or> val = ''off'' then False
          else defaultValue)"

definition intAttr :: "node \<Rightarrow> string \<Rightarrow> jsnum \<Rightarrow> jsnum" where
  "intAttr elem l defaultValue =
     (case attr elem l of
        None \<Rightarrow> defaultValue
      | Some val \<Rightarrow> if val = [] then defaultValue else parseInt val)"

datatype unit_kind = Dxa | Pt | Emu

definition lengthAttr :: "node \<Rightarrow> string \<Rightarrow> unit_kind \<Rightarrow> jsnum option" where
  "lengthAttr elem l unit =
     (case attr elem l of
        None \<Rightarrow> None
      | Some val \<Rightarrow>
          if val = [] then None
          else let num = parseInt val in
            (case unit of
               Dxa \<Rightarrow> Some (jdiv num 20)
             | Emu \<Rightarrow> Some (jdiv num 12700)
             | Pt \<Rightarrow> Some num))"

section \<open>The document model\<close>

text \<open>
  \<open>RunFormatting\<close> is kept as the JavaScript object it is, an insertion-ordered list of
  keys and values, because the code counts its keys (\<open>Object.keys(formatting).length\<close>)
  and a key can be present with the value \<open>undefined\<close>.
\<close>

datatype jsval = VUndefined | VBool bool | VNum jsnum | VStr string

type_synonym jsobject = "(string \<times> jsval) list"

definition setKey :: "string \<Rightarrow> jsval \<Rightarrow> jsobject \<Rightarrow> jsobject" where
  "setKey k v obj =
     (if k \<in> fst ` set obj then map (\<lambda>(k', v'). if k' = k then (k', v) else (k', v')) obj
      else obj @ [(k, v)])"

definition getKey :: "jsobject \<Rightarrow> string \<Rightarrow> jsval" where
  "getKey obj k = (case map_of obj k of None \<Rightarrow> VUndefined | Some v \<Rightarrow> v)"

fun truthy :: "jsval \<Rightarrow> bool" where
  "truthy VUndefined = False"
| "truthy (VBool b) = b"
| "truthy (VNum n) = truthy_num n"
| "truthy (VStr s) = (s \<noteq> [])"

text \<open>\<open>attr(...) ?? undefined\<close> stored under a key.\<close>

fun optStr :: "string option \<Rightarrow> jsval" where
  "optStr None = VUndefined"
| "optStr (Some s) = VStr s"

type_synonym RunFormatting = jsobject

type_synonym bytes = "8 word list"

record ExtractedImage =
  img_src :: string
  img_mediaPath :: "string option"
  img_data :: "string option"
  img_contentType :: "string option"
  img_width :: "jsnum option"
  img_height :: "jsnum option"
  img_drawingXml :: "string option"

record ExtractedRun =
  r_text :: "ustring option"
  r_formatting :: "RunFormatting option"
  r_image :: "ExtractedImage option"

record SpacingInfo =
  sp_before :: "jsnum option"
  sp_after :: "jsnum option"
  sp_line :: "jsnum option"
  sp_lineRule :: "string option"

record IndentationInfo =
  ind_left :: "jsnum option"
  ind_right :: "jsnum option"
  ind_firstLine :: "jsnum option"
  ind_hanging :: "jsnum option"

record NumberingInfo =
  num_id :: string
  num_level :: "jsnum option"

record ExtractedParagraph =
  p_runs :: "ExtractedRun list"
  p_spacing :: "SpacingInfo option"
  p_alignment :: "string option"
  p_indentation :: "IndentationInfo option"
  p_styleName :: "string option"
  p_numbering :: "NumberingInfo option"
  p_isEmpty :: bool

record BorderInfo =
  b_style :: "string option"
  b_size :: "jsnum option"
  b_color :: "string option"

text \<open>The keys of \<open>CellBorders\<close> and \<open>CellMargins\<close>.\<close>

datatype side = Top | Bottom | Left | Right

fun sideName :: "side \<Rightarrow> string" where
  "sideName Top = ''top''"
| "sideName Bottom = ''bottom''"
| "sideName Left = ''left''"
| "sideName Right = ''right''"

text \<open>
  \<open>CellBorders\<close> and \<open>CellMargins\<close> are objects read with \<open>Object.entries\<close>: the keys in
  insertion order, each with its value or \<open>undefined\<close>.
\<close>

type_synonym CellBorders = "(side \<times> BorderInfo option) list"
type_synonym CellMargins = "(side \<times> jsnum option) list"

record ExtractedTableCell =
  c_content :: "ExtractedParagraph list"
  c_colSpan :: "jsnum option"
  c_rowSpan :: "jsnum option"
  c_width :: "jsnum option"
  c_backgroundColor :: "string option"
  c_borders :: "CellBorders option"
  c_verticalAlign :: "string option"
  c_margins :: "CellMargins option"

record ExtractedTableRow =
  tr_cells :: "ExtractedTableCell list"

record ExtractedTable =
  t_rows :: "ExtractedTableRow list"
  t_columnWidths :: "jsnum list option"
  t_tableStyle :: "string option"

datatype BodyElement = BParagraph ExtractedParagraph | BTable ExtractedTable

record TabStop =
  tab_val :: string
  tab_pos :: jsnum

record NumberingLevel =
  lvl_level :: jsnum
  lvl_start :: "jsnum option"
  lvl_format :: "string option"
  lvl_text :: "ustring option"
  lvl_paragraphStyleName :: "string option"
  lvl_alignment :: "string option"
  lvl_indentation :: "IndentationInfo option"
  lvl_tabs :: "TabStop list option"
  lvl_fontFamily :: "string option"
  lvl_fontHint :: "string option"

record NumberingDefinition =
  nd_numId :: string
  nd_abstractNumId :: string
  nd_nsid :: "string option"
  nd_multiLevelType :: "string option"
  nd_tmpl :: "string option"
  nd_levels :: "NumberingLevel list"

record ParagraphDefaults =
  pd_spacing :: "SpacingInfo option"
  pd_alignment :: "string option"
  pd_indentation :: "IndentationInfo option"

text \<open>
  The style catalogue and the two defaults blocks are carried through the model as they
  are; \<open>'s\<close> stands for the catalogue \<open>Map<string, StyleInfo>\<close>.
\<close>

record 's ExtractedDocument =
  d_paragraphs :: "ExtractedParagraph list"
  d_tables :: "ExtractedTable list"
  d_body :: "BodyElement list"
  d_styles :: 's
  d_defaults :: "RunFormatting option"
  d_paragraphDefaults :: "ParagraphDefaults option"
  d_numbering :: "(string \<times> NumberingDefinition) list option"
  d_mediaFiles :: "(string \<times> bytes) list option"

section \<open>The extractor\<close>

subsection \<open>The archive and the platform\<close>

text \<open>
  The zip codec, the UTF-8 decoder, the DOM parser and the base64 coder are outside the
  repository.  The archive is the loaded zip, an ordered list of named entries; the
  conversions are parameters (\<open>atob\<close> is used by the builder).
\<close>

record zipEntry =
  ze_dir :: bool
  ze_content :: bytes

type_synonym archive = "(string \<times> zipEntry) list"

record platform =
  utf8Decode :: "bytes \<Rightarrow> ustring"
  parseFromString :: "ustring \<Rightarrow> node"
  base64 :: "bytes \<Rightarrow> string"
  atob :: "string \<Rightarrow> bytes"

text \<open>\<open>zip.file(path)\<close>: the entry of that name unless it is a directory.\<close>

definition zipFile :: "archive \<Rightarrow> string \<Rightarrow> zipEntry option" where
  "zipFile ar path =
     (case map_of ar path of
        None \<Rightarrow> None
      | Some e \<Rightarrow> if ze_dir e then None else Some e)"

text \<open>The state of one extractor instance that the body walk reads.\<close>

record extractor =
  x_platform :: platform
  x_zip :: archive
  x_relationships :: "string \<rightharpoonup> string"

subsection \<open>String helpers\<close>

text \<open>\<open>s.split(c)\<close> for a separator of one character.\<close>

fun splitOn :: "'a \<Rightarrow> 'a list \<Rightarrow> 'a list list" where
  "splitOn sep [] = [[]]"
| "splitOn sep (x # xs) =
     (if x = sep then [] # splitOn sep xs
      else (case splitOn sep xs of p # ps \<Rightarrow> (x # p) # ps | [] \<Rightarrow> [[x]]))"

text \<open>\<open>toLowerCase\<close> on characters below 256 (the letters of Latin-1).\<close>

definition lowerChar :: "char \<Rightarrow> char" where
  "lowerChar c =
     (let n = (of_char c :: nat) in
      if (65 \<le> n \<and> n \<le> 90) \<or> (192 \<le> n \<and> n \<le> 214) \<or> (216 \<le> n \<and> n \<le> 222)
      then char_of (n + 32) else c)"

definition toLowerCase :: "string \<Rightarrow> string" where
  "toLowerCase s = map lowerChar s"

definition startsWith :: "'a list \<Rightarrow> 'a list \<Rightarrow> bool" where
  "startsWith s p = (take (length p) s = p)"

text \<open>\<open>s.replace(/c/g, d)\<close> for single code units.\<close>

definition replaceAll :: "'a \<Rightarrow> 'a \<Rightarrow> 'a list \<Rightarrow> 'a list" where
  "replaceAll c d s = map (\<lambda>x. if x = c then d else x) s"

text \<open>The code units \<open>String.prototype.trim\<close> removes: white space and line terminators.\<close>

definition isTrimmed :: "16 word \<Rightarrow> bool" where
  "isTrimmed c =
     (c \<in> {0x09, 0x0A, 0x0B, 0x0C, 0x0D, 0x20, 0xA0, 0x1680, 0x2028, 0x2029, 0x202F,
            0x205F, 0x3000, 0xFEFF} \<or> (0x2000 \<le> c \<and> c \<le> 0x200A))"

definition trim :: "ustring \<Rightarrow> ustring" where
  "trim s = rev (dropWhile isTrimmed (rev (dropWhile isTrimmed s)))"

subsection \<open>Relationships\<close>

definition loadRelationships :: "platform \<Rightarrow> archive \<Rightarrow> (string \<rightharpoonup> string)" where
  "loadRelationships pf ar =
     (case zipFile ar ''word/_rels/document.xml.rels'' of
        None \<Rightarrow> Map.empty
      | Some f \<Rightarrow>
          let relsXml = utf8Decode pf (ze_content f) in
          if relsXml = [] then Map.empty
          else foldl (\<lambda>m rel.
                 (case (attr rel ''Id'', attr rel ''Target'') of
                    (Some rid, Some target) \<Rightarrow>
                      if rid \<noteq> [] \<and> target \<noteq> [] then m(rid \<mapsto> target) else m
                  | _ \<Rightarrow> m))
               Map.empty
               (elements (parseFromString pf relsXml) (Some ''Relationship'')))"

subsection \<open>Images\<close>

definition contentTypeMap :: "string \<Rightarrow> string option" where
  "contentTypeMap ext =
     (if ext = ''png'' then Some ''image/png''
      else if ext = ''jpg'' then Some ''image/jpeg''
      else if ext = ''jpeg'' then Some ''image/jpeg''
      else if ext = ''gif'' then Some ''image/gif''
      else if ext = ''bmp'' then Some ''image/bmp''
      else if ext = ''svg'' then Some ''image/svg+xml''
      else if ext = ''webp'' then Some ''image/webp''
      else None)"

text \<open>\<open>loadImageData\<close> returns the pair \<open>(data, contentType)\<close>, both absent for \<open>{}\<close>.\<close>

definition loadImageData :: "extractor \<Rightarrow> string \<Rightarrow> string option \<times> string option" where
  "loadImageData x path =
     (case zipFile (x_zip x) path of
        None \<Rightarrow> (None, None)
      | Some imageFile \<Rightarrow>
          let b64 = base64 (x_platform x) (ze_content imageFile);
              ext = toLowerCase (last (splitOn CHR ''.'' path))
          in (Some b64, if ext \<noteq> [] then contentTypeMap ext else None))"

definition extractDrawing :: "extractor \<Rightarrow> node \<Rightarrow> ExtractedImage option" where
  "extractDrawing x drawingElem =
     (let inline = element drawingElem ''inline'';
          anchor = element drawingElem ''anchor'';
          wrapper = (case inline of Some i \<Rightarrow> Some i | None \<Rightarrow> anchor)
      in case wrapper of None \<Rightarrow> None | Some wrapper \<Rightarrow>
      let extent = element wrapper ''extent'';
          width = (case extent of None \<Rightarrow> None | Some e \<Rightarrow> lengthAttr e ''cx'' Emu);
          height = (case extent of None \<Rightarrow> None | Some e \<Rightarrow> lengthAttr e ''cy'' Emu)
      in case element wrapper ''graphic'' of None \<Rightarrow> None | Some graphic \<Rightarrow>
         (case element graphic ''graphicData'' of None \<Rightarrow> None | Some graphicData \<Rightarrow>
         (case element graphicData ''pic'' of None \<Rightarrow> None | Some pic \<Rightarrow>
         (case element pic ''blipFill'' of None \<Rightarrow> None | Some blipFill \<Rightarrow>
         (case element blipFill ''blip'' of None \<Rightarrow> None | Some blip \<Rightarrow>
         (case attr blip ''embed'' of None \<Rightarrow> None | Some embedId \<Rightarrow>
            if embedId = [] then None
            else (case x_relationships x embedId of None \<Rightarrow> None | Some imagePath \<Rightarrow>
              if imagePath = [] then None
              else let fullMediaPath = ''word/'' @ imagePath;
                       imageData = loadImageData x fullMediaPath
                   in Some \<lparr> img_src = embedId, img_mediaPath = Some fullMediaPath,
                             img_data = fst imageData, img_contentType = snd imageData,
                             img_width = width, img_height = height,
                             img_drawingXml = None \<rparr>)))))))"

definition extractVmlPicture :: "node \<Rightarrow> ExtractedImage option" where
  "extractVmlPicture pictElem = None"

subsection \<open>Runs\<close>

text \<open>The run-properties block of \<open>extractRun\<close>, applied to the \<open>rPr\<close> child.\<close>

definition extractRunProperties :: "node \<Rightarrow> RunFormatting" where
  "extractRunProperties rPr =
     (let f0 = [];
          f1 = (case element rPr ''b'' of
                  Some b \<Rightarrow> setKey ''bold'' (VBool (boolAttr b ''val'' True)) f0 | None \<Rightarrow> f0);
          f2 = (case element rPr ''i'' of
                  Some i \<Rightarrow> setKey ''italic'' (VBool (boolAttr i ''val'' True)) f1 | None \<Rightarrow> f1);
          f3 = (case element rPr ''u'' of
                  Some u \<Rightarrow> if attr u ''val'' \<noteq> Some ''none''
                             then setKey ''underline'' (VBool True) f2 else f2
                | None \<Rightarrow> f2);
          f4 = (case element rPr ''strike'' of
                  Some s \<Rightarrow> setKey ''strike'' (VBool (boolAttr s ''val'' True)) f3 | None \<Rightarrow> f3);
          f5 = (case element rPr ''sz'' of
                  Some sz \<Rightarrow> setKey ''fontSize'' (VNum (jdiv (intAttr sz ''val'' (Number 0)) 2)) f4
                | None \<Rightarrow> f4);
          f6 = (case element rPr ''rFonts'' of
                  Some rFonts \<Rightarrow> setKey ''fontFamily'' (optStr (attr rFonts ''ascii'')) f5
                | None \<Rightarrow> f5);
          f7 = (case element rPr ''color'' of
                  Some color \<Rightarrow>
                    (case attr color ''val'' of
                       Some colorVal \<Rightarrow>
                         if colorVal \<noteq> [] \<and> colorVal \<noteq> ''auto''
                         then setKey ''color'' (VStr (''#'' @ colorVal)) f6 else f6
                     | None \<Rightarrow> f6)
                | None \<Rightarrow> f6);
          f8 = (case element rPr ''highlight'' of
                  Some h \<Rightarrow> setKey ''highlight'' (optStr (attr h ''val'')) f7 | None \<Rightarrow> f7);
          f9 = (case element rPr ''vertAlign'' of
                  Some v \<Rightarrow>
                    (case attr v ''val'' of
                       Some val \<Rightarrow>
                         if val = ''superscript'' \<or> val = ''subscript''
                         then setKey ''verticalAlign'' (VStr val) f8 else f8
                     | None \<Rightarrow> f8)
                | None \<Rightarrow> f8)
      in f9)"

text \<open>
  One turn of the loop over the child elements of a run: the state is the text gathered
  so far and the current image.
\<close>

definition runChild ::
  "extractor \<Rightarrow> ustring \<times> ExtractedImage option \<Rightarrow> node \<Rightarrow> ustring \<times> ExtractedImage option" where
  "runChild x st child =
     (let text = fst st; img = snd st; ln = localName child in
      if ln = ''t'' then (text @ textContent child, img)
      else if ln = ''tab'' then (text @ [0x09], img)
      else if ln = ''br'' then
        (if attr child ''type'' = Some ''page'' then (text @ [0x0C], img)
         else (text @ [0x0A], img))
      else if ln = ''drawing'' then (text, extractDrawing x child)
      else if ln = ''pict'' then (text, extractVmlPicture child)
      else (text, img))"

text \<open>The five replacements applied to the gathered text.\<close>

definition normalizeTerminators :: "ustring \<Rightarrow> ustring" where
  "normalizeTerminators text =
     replaceAll 0x000C 0x20 (replaceAll 0x000B 0x20 (replaceAll 0x0085 0x20
       (replaceAll 0x2029 0x20 (replaceAll 0x2028 0x20 text))))"

text \<open>The text that one child element of a run contributes.\<close>

definition runPiece :: "node \<Rightarrow> ustring" where
  "runPiece child =
     (let ln = localName child in
      if ln = ''t'' then textContent child
      else if ln = ''tab'' then [0x09]
      else if ln = ''br'' then (if attr child ''type'' = Some ''page'' then [0x0C] else [0x0A])
      else [])"

text \<open>An element of the given local name.\<close>

definition isNamed :: "string \<Rightarrow> node \<Rightarrow> bool" where
  "isNamed name n = (case n of Element l as cs \<Rightarrow> l = name | _ \<Rightarrow> False)"

text \<open>The children that set the image of a run.\<close>

definition isImageChild :: "node \<Rightarrow> bool" where
  "isImageChild c = (isNamed ''drawing'' c \<or> isNamed ''pict'' c)"

definition extractRun :: "extractor \<Rightarrow> node \<Rightarrow> ExtractedRun" where
  "extractRun x rElem =
     (let formatting = (case element rElem ''rPr'' of
                          Some rPr \<Rightarrow> extractRunProperties rPr | None \<Rightarrow> []);
          st = foldl (runChild x) ([], None) (elements rElem None);
          text = normalizeTerminators (fst st);
          img = snd st
      in \<lparr> r_text = (if text = [] then None else Some text),
           r_formatting = (if formatting \<noteq> [] then Some formatting else None),
           r_image = img \<rparr>)"

subsection \<open>Paragraphs\<close>

definition extractSpacing :: "node \<Rightarrow> SpacingInfo" where
  "extractSpacing spacingElem =
     \<lparr> sp_before = lengthAttr spacingElem ''before'' Dxa,
       sp_after = lengthAttr spacingElem ''after'' Dxa,
       sp_line = (let l = jdiv (intAttr spacingElem ''line'' (Number 0)) 240
                  in if truthy_num l then Some l else None),
       sp_lineRule = attr spacingElem ''lineRule'' \<rparr>"

definition extractIndentation :: "node \<Rightarrow> IndentationInfo" where
  "extractIndentation ind =
     \<lparr> ind_left = lengthAttr ind ''left'' Dxa,
       ind_right = lengthAttr ind ''right'' Dxa,
       ind_firstLine = lengthAttr ind ''firstLine'' Dxa,
       ind_hanging = lengthAttr ind ''hanging'' Dxa \<rparr>"

text \<open>\<open>attr(numId, 'val') || ''\<close>.\<close>

definition orEmpty :: "string option \<Rightarrow> string" where
  "orEmpty v = (case v of None \<Rightarrow> [] | Some s \<Rightarrow> s)"

text \<open>The numbering block of \<open>extractParagraph\<close>, applied to the \<open>pPr\<close> child.\<close>

definition paragraphNumbering :: "node \<Rightarrow> NumberingInfo option" where
  "paragraphNumbering pPr =
     (case element pPr ''numPr'' of
        None \<Rightarrow> None
      | Some numPr \<Rightarrow>
          let numId = element numPr ''numId'';
              ilvl = element numPr ''ilvl''
          in (case numId of
                None \<Rightarrow> None
              | Some numId \<Rightarrow>
                  Some \<lparr> num_id = orEmpty (attr numId ''val''),
                         num_level = (case ilvl of
                                        Some ilvl \<Rightarrow> Some (intAttr ilvl ''val'' (Number 0))
                                      | None \<Rightarrow> Some (Number 0)) \<rparr>))"


definition normalizeAlignment :: "string option \<Rightarrow> string option" where
  "normalizeAlignment jcVal =
     (if jcVal = Some ''start'' then Some ''left''
      else if jcVal = Some ''end'' then Some ''right'' else jcVal)"

definition runIsBlank :: "ExtractedRun \<Rightarrow> bool" where
  "runIsBlank r = (case r_text r of None \<Rightarrow> True | Some t \<Rightarrow> t = [] \<or> length (trim t) = 0)"

definition extractParagraph :: "extractor \<Rightarrow> node \<Rightarrow> ExtractedParagraph" where
  "extractParagraph x pElem =
     (let pPr = element pElem ''pPr'';
          sub = (\<lambda>name. case pPr of None \<Rightarrow> None | Some pPr \<Rightarrow> element pPr name);
          spacing = map_option extractSpacing (sub ''spacing'');
          alignment = (case sub ''jc'' of
                         None \<Rightarrow> None | Some jc \<Rightarrow> normalizeAlignment (attr jc ''val''));
          indentation = map_option extractIndentation (sub ''ind'');
          styleName = (case sub ''pStyle'' of None \<Rightarrow> None | Some pStyle \<Rightarrow> attr pStyle ''val'');
          numbering = (case pPr of None \<Rightarrow> None | Some pPr \<Rightarrow> paragraphNumbering pPr);
          runs = map (extractRun x) (filter (\<lambda>child. localName child = ''r'') (elements pElem None));
          isEmpty = (length runs = 0 \<or> list_all runIsBlank runs)
      in \<lparr> p_runs = runs, p_spacing = spacing, p_alignment = alignment,
           p_indentation = indentation, p_styleName = styleName, p_numbering = numbering,
           p_isEmpty = isEmpty \<rparr>)"

subsection \<open>Tables\<close>

definition extractBorder :: "node \<Rightarrow> BorderInfo option" where
  "extractBorder borderElem =
     (let style = (case attr borderElem ''val'' of
                     Some s \<Rightarrow> if s \<noteq> [] \<and> s \<noteq> ''none'' then Some s else None
                   | None \<Rightarrow> None);
          sz = intAttr borderElem ''sz'' (Number 0);
          size = (if jgt sz 0 then Some sz else None);
          color = (case attr borderElem ''color'' of
                     Some c \<Rightarrow> if c \<noteq> [] \<and> c \<noteq> ''auto'' then Some (''#'' @ c) else None
                   | None \<Rightarrow> None)
      in if style \<noteq> None \<or> size \<noteq> None \<or> color \<noteq> None
         then Some \<lparr> b_style = style, b_size = size, b_color = color \<rparr>
         else None)"

definition extractBorders :: "node \<Rightarrow> CellBorders" where
  "extractBorders tcBorders =
     List.map_filter
       (\<lambda>sd. case element tcBorders (sideName sd) of
                None \<Rightarrow> None
              | Some borderElem \<Rightarrow>
                  (case extractBorder borderElem of
                     None \<Rightarrow> None | Some info \<Rightarrow> Some (sd, Some info)))
       [Top, Bottom, Left, Right]"

definition extractMargins :: "node \<Rightarrow> CellMargins" where
  "extractMargins tcMar =
     List.map_filter
       (\<lambda>sd. case element tcMar (sideName sd) of
                None \<Rightarrow> None
              | Some marginElem \<Rightarrow>
                  (case lengthAttr marginElem ''w'' Dxa of
                     None \<Rightarrow> None | Some margin \<Rightarrow> Some (sd, Some margin)))
       [Top, Bottom, Left, Right]"

text \<open>The vertical-merge block of \<open>extractCellProperties\<close>, applied to the \<open>tcPr\<close> child.\<close>

definition cellRowSpan :: "node \<Rightarrow> jsnum option" where
  "cellRowSpan tcPr =
     (case element tcPr ''vMerge'' of
        None \<Rightarrow> None
      | Some vMerge \<Rightarrow>
          let val = attr vMerge ''val'' in
          if val = Some ''restart'' \<or> val = None
          then Some (if val = Some ''restart'' then Number 1 else Number 0)
          else None)"

definition emptyCell :: ExtractedTableCell where
  "emptyCell =
     \<lparr> c_content = [], c_colSpan = None, c_rowSpan = None, c_width = None,
       c_backgroundColor = None, c_borders = None, c_verticalAlign = None,
       c_margins = None \<rparr>"

text \<open>
  \<open>extractCellProperties\<close> returns the properties it found; they are the fields other
  than the content of the cell the caller assembles.
\<close>

definition extractCellProperties :: "node \<Rightarrow> ExtractedTableCell" where
  "extractCellProperties tcElem =
     (case element tcElem ''tcPr'' of
        None \<Rightarrow> emptyCell
      | Some tcPr \<Rightarrow>
          emptyCell
          \<lparr> c_colSpan := (case element tcPr ''gridSpan'' of
                            None \<Rightarrow> None
                          | Some gridSpan \<Rightarrow>
                              let val = intAttr gridSpan ''val'' (Number 0)
                              in if jgt val 1 then Some val else None),
            c_rowSpan := cellRowSpan tcPr,
            c_width := (case element tcPr ''tcW'' of
                          None \<Rightarrow> None | Some tcW \<Rightarrow> lengthAttr tcW ''w'' Dxa),
            c_backgroundColor := (case element tcPr ''shd'' of
                                    None \<Rightarrow> None
                                  | Some shd \<Rightarrow>
                                      (case attr shd ''fill'' of
                                         Some fill \<Rightarrow>
                                           if fill \<noteq> [] \<and> fill \<noteq> ''auto''
                                           then Some (''#'' @ fill) else None
                                       | None \<Rightarrow> None)),
            c_verticalAlign := (case element tcPr ''vAlign'' of
                                  None \<Rightarrow> None
                                | Some vAlign \<Rightarrow>
                                    (case attr vAlign ''val'' of
                                       Some val \<Rightarrow>
                                         if val = ''top'' \<or> val = ''center'' \<or> val = ''bottom''
                                         then Some val else None
                                     | None \<Rightarrow> None)),
            c_borders := (case element tcPr ''tcBorders'' of
                            None \<Rightarrow> None
                          | Some tcBorders \<Rightarrow>
                              let borders = extractBorders tcBorders
                              in if borders \<noteq> [] then Some borders else None),
            c_margins := (case element tcPr ''tcMar'' of
                            None \<Rightarrow> None
                          | Some tcMar \<Rightarrow>
                              let margins = extractMargins tcMar
                              in if margins \<noteq> [] then Some margins else None) \<rparr>)"

definition extractTable :: "extractor \<Rightarrow> node \<Rightarrow> ExtractedTable" where
  "extractTable x tblElem =
     \<lparr> t_rows =
         map (\<lambda>tr.
                \<lparr> tr_cells =
                    map (\<lambda>tc. (extractCellProperties tc)
                               \<lparr> c_content := map (extractParagraph x) (elements tc (Some ''p'')) \<rparr>)
                        (elements tr (Some ''tc'')) \<rparr>)
             (elements tblElem (Some ''tr'')),
       t_columnWidths = None,
       t_tableStyle = None \<rparr>"

subsection \<open>The entry point\<close>

datatype error = DocumentXmlNotFound | BodyNotFound

text \<open>
  \<open>loadStyles\<close> and \<open>loadNumbering\<close> fill the style catalogue, the defaults and the
  numbering map of the instance; \<open>extract\<close> copies what they left into its result.  They
  are parameters here: the results are what \<open>extract\<close> returns in the fields \<open>styles\<close>,
  \<open>defaults\<close>, \<open>paragraphDefaults\<close> and \<open>numbering\<close>.
\<close>

record 's resolvers =
  loadStyles :: "archive \<Rightarrow> 's \<times> RunFormatting option \<times> ParagraphDefaults option"
  loadNumbering :: "archive \<Rightarrow> (string \<times> NumberingDefinition) list"

definition bodyElements :: "extractor \<Rightarrow> node \<Rightarrow> BodyElement list" where
  "bodyElements x body =
     List.map_filter
       (\<lambda>child. if localName child = ''p'' then Some (BParagraph (extractParagraph x child))
                 else if localName child = ''tbl'' then Some (BTable (extractTable x child))
                 else None)
       (elements body None)"

definition loadMediaFiles :: "archive \<Rightarrow> (string \<times> bytes) list" where
  "loadMediaFiles ar =
     List.map_filter
       (\<lambda>(filePath, e). if startsWith filePath ''word/media/'' \<and> \<not> ze_dir e
                          then map_option (\<lambda>f. (filePath, ze_content f)) (zipFile ar filePath)
                          else None)
       ar"

text \<open>
  \<open>DocxExtractor.extract\<close> on a newly constructed extractor, every table of the instance
  being empty at the start.  (\<open>extract\<close> is a command name of Isabelle, hence the longer
  name.)
\<close>

definition extractDocx ::
  "platform \<Rightarrow> 's resolvers \<Rightarrow> archive \<Rightarrow> error + 's ExtractedDocument" where
  "extractDocx pf rs ar =
     (let relationships = loadRelationships pf ar;
          loaded = loadStyles rs ar;
          numbering = loadNumbering rs ar
      in case zipFile ar ''word/document.xml'' of
           None \<Rightarrow> Inl DocumentXmlNotFound
         | Some f \<Rightarrow>
             let documentXmlString = utf8Decode pf (ze_content f) in
             if documentXmlString = [] then Inl DocumentXmlNotFound
             else (case element (parseFromString pf documentXmlString) ''body'' of
                     None \<Rightarrow> Inl BodyNotFound
                   | Some body \<Rightarrow>
                       let mediaFiles = loadMediaFiles ar;
                           x = \<lparr> x_platform = pf, x_zip = ar, x_relationships = relationships \<rparr>;
                           bodyElems = bodyElements x body
                       in Inr \<lparr> d_paragraphs =
                                   List.map_filter
                                     (\<lambda>e. case e of BParagraph p \<Rightarrow> Some p | _ \<Rightarrow> None) bodyElems,
                                 d_tables =
                                   List.map_filter
                                     (\<lambda>e. case e of BTable t \<Rightarrow> Some t | _ \<Rightarrow> None) bodyElems,
                                 d_body = bodyElems,
                                 d_styles = fst loaded,
                                 d_defaults = fst (snd loaded),
                                 d_paragraphDefaults = snd (snd loaded),
                                 d_numbering = (if length numbering > 0 then Some numbering else None),
                                 d_mediaFiles = (if length mediaFiles > 0 then Some mediaFiles
                                                 else None) \<rparr>))"

section \<open>The builder\<close>

subsection \<open>The XML written by the builder\<close>

text \<open>
  The builder appends text fragments that spell elements.  The model keeps the element
  structure those fragments spell: a tag with its attributes and children, character
  data (already escaped), or a fragment copied verbatim from the model.  Indentation
  between elements is left out.  An attribute value is the string, the text or the number
  that the template interpolates.
\<close>

datatype aval = S string | U ustring | N jsnum

datatype xml =
    Tag (tagName: string) (tagAttrs: "(string \<times> aval) list") (tagChildren: "xml list")
  | Chars ustring
  | Verbatim string

text \<open>An archive entry written by the builder.\<close>

datatype part =
    Boilerplate
  | XmlPart xml
  | Binary bytes

type_synonym outArchive = "string \<rightharpoonup> part"

record relationship =
  rel_id :: string
  rel_type :: string
  rel_target :: string

text \<open>The two fields of a builder instance.\<close>

record builder =
  relationships :: "string \<rightharpoonup> relationship"
  nextRelId :: nat

subsection \<open>String helpers\<close>

fun showNat :: "nat \<Rightarrow> string" where
  "showNat n =
     (if n < 10 then [char_of (48 + n)]
      else showNat (n div 10) @ [char_of (48 + n mod 10)])"

declare showNat.simps [simp del]

text \<open>\<open>s.replace(pat, rep)\<close> with a string pattern: the first occurrence only.\<close>

fun replaceFirst :: "'a list \<Rightarrow> 'a list \<Rightarrow> 'a list \<Rightarrow> 'a list" where
  "replaceFirst pat rep [] = (if pat = [] then rep else [])"
| "replaceFirst pat rep (x # xs) =
     (if startsWith (x # xs) pat then rep @ drop (length pat) (x # xs)
      else x # replaceFirst pat rep xs)"

fun includesStr :: "'a list \<Rightarrow> 'a list \<Rightarrow> bool" where
  "includesStr [] pat = (pat = [])"
| "includesStr (x # xs) pat = (startsWith (x # xs) pat \<or> includesStr xs pat)"

text \<open>
  \<open>s.replace(/r:embed="[^"]*"/g, rep)\<close>.  The first argument counts the characters of
  a match that are still to be skipped.
\<close>

fun replaceEmbed :: "nat \<Rightarrow> string \<Rightarrow> string \<Rightarrow> string" where
  "replaceEmbed k rep [] = []"
| "replaceEmbed (Suc k) rep (x # xs) = replaceEmbed k rep xs"
| "replaceEmbed 0 rep (x # xs) =
     (let s = x # xs; opening = ''r:embed=\"''; rest = drop (length opening) s;
          val = takeWhile (\<lambda>c. c \<noteq> CHR 0x22) rest
      in if startsWith s opening \<and> length val < length rest
         then rep @ replaceEmbed (length opening + length val) rep xs
         else x # replaceEmbed 0 rep xs)"

text \<open>The escaping of run text: \<open>&\<close>, \<open><\<close> and \<open>>\<close>.\<close>

definition escapeText :: "ustring \<Rightarrow> ustring" where
  "escapeText s =
     concat (map (\<lambda>c. if c = 0x26 then ustr ''&amp;''
                        else if c = 0x3C then ustr ''&lt;''
                        else if c = 0x3E then ustr ''&gt;''
                        else [c]) s)"

subsection \<open>Spacing, indentation and run formatting\<close>

text \<open>\<open>Math.round(value * 20)\<close> as an attribute, when the value is defined.\<close>

definition twipsAttr :: "string \<Rightarrow> jsnum option \<Rightarrow> (string \<times> aval) list" where
  "twipsAttr name v =
     (case v of None \<Rightarrow> [] | Some n \<Rightarrow> [(name, N (Math_round (jmul n 20)))])"

definition buildSpacingXml :: "SpacingInfo \<Rightarrow> xml" where
  "buildSpacingXml spacing =
     Tag ''w:spacing''
       (twipsAttr ''w:before'' (sp_before spacing)
        @ twipsAttr ''w:after'' (sp_after spacing)
        @ twipsAttr ''w:line'' (sp_line spacing)
        @ (case sp_lineRule spacing of
             Some r \<Rightarrow> if r \<noteq> [] then [(''w:lineRule'', S r)] else []
           | None \<Rightarrow> []))
       []"

definition buildIndentationXml :: "IndentationInfo \<Rightarrow> xml" where
  "buildIndentationXml indentation =
     Tag ''w:ind''
       (twipsAttr ''w:left'' (ind_left indentation)
        @ twipsAttr ''w:right'' (ind_right indentation)
        @ twipsAttr ''w:firstLine'' (ind_firstLine indentation)
        @ twipsAttr ''w:hanging'' (ind_hanging indentation))
       []"

text \<open>
  The TypeScript types fix the kind of value under each key of \<open>RunFormatting\<close>; the two
  readers below return the number or the string that is interpolated.
\<close>

fun numOf :: "jsval \<Rightarrow> jsnum" where
  "numOf (VNum n) = n"
| "numOf _ = NaN"

fun strOf :: "jsval \<Rightarrow> string" where
  "strOf (VStr s) = s"
| "strOf _ = []"

definition strAttrIf :: "string \<Rightarrow> jsval \<Rightarrow> (string \<times> aval) list" where
  "strAttrIf name v = (if truthy v then [(name, S (strOf v))] else [])"

definition buildRunFormattingXml :: "RunFormatting \<Rightarrow> xml list" where
  "buildRunFormattingXml formatting =
     (let g = getKey formatting in
      (if truthy (g ''bold'') then [Tag ''w:b'' [] [], Tag ''w:bCs'' [] []] else [])
      @ (if truthy (g ''italic'') then [Tag ''w:i'' [] [], Tag ''w:iCs'' [] []] else [])
      @ (if truthy (g ''underline'') then [Tag ''w:u'' [(''w:val'', S ''single'')] []] else [])
      @ (if truthy (g ''strike'') then [Tag ''w:strike'' [] []] else [])
      @ (if truthy (g ''fontSize'')
         then (let sz = jmul (numOf (g ''fontSize'')) 2
               in [Tag ''w:sz'' [(''w:val'', N sz)] [], Tag ''w:szCs'' [(''w:val'', N sz)] []])
         else [])
      @ (if truthy (g ''fontFamily'') \<or> truthy (g ''fontThemeAscii'')
            \<or> truthy (g ''fontThemeEastAsia'') \<or> truthy (g ''fontThemeHAnsi'')
            \<or> truthy (g ''fontThemeCs'')
         then [Tag ''w:rFonts''
                 ((if truthy (g ''fontFamily'')
                   then [(''w:ascii'', S (strOf (g ''fontFamily''))),
                         (''w:hAnsi'', S (strOf (g ''fontFamily'')))]
                   else [])
                  @ strAttrIf ''w:asciiTheme'' (g ''fontThemeAscii'')
                  @ strAttrIf ''w:eastAsiaTheme'' (g ''fontThemeEastAsia'')
                  @ strAttrIf ''w:hAnsiTheme'' (g ''fontThemeHAnsi'')
                  @ strAttrIf ''w:cstheme'' (g ''fontThemeCs''))
                 []]
         else [])
      @ (if truthy (g ''color'') \<or> truthy (g ''colorTheme'')
         then [Tag ''w:color''
                 ((if truthy (g ''color'')
                   then [(''w:val'', S (replaceFirst ''#'' [] (strOf (g ''color''))))]
                   else [])
                  @ strAttrIf ''w:themeColor'' (g ''colorTheme'')
                  @ strAttrIf ''w:themeShade'' (g ''colorThemeShade''))
                 []]
         else [])
      @ (if truthy (g ''highlight'')
         then [Tag ''w:highlight'' [(''w:val'', S (strOf (g ''highlight'')))] []]
         else [])
      @ (if g ''verticalAlign'' = VStr ''superscript'' \<or> g ''verticalAlign'' = VStr ''subscript''
         then [Tag ''w:vertAlign'' [(''w:val'', S (strOf (g ''verticalAlign'')))] []]
         else []))"

subsection \<open>Images\<close>

text \<open>\<open>a || b\<close> on optional strings and on optional numbers.\<close>

definition orStr :: "string option \<Rightarrow> string \<Rightarrow> string" where
  "orStr a b = (case a of Some s \<Rightarrow> if s \<noteq> [] then s else b | None \<Rightarrow> b)"

definition orNum :: "jsnum option \<Rightarrow> jsnum \<Rightarrow> jsnum" where
  "orNum a b = (case a of Some n \<Rightarrow> if truthy_num n then n else b | None \<Rightarrow> b)"

definition inlineImageXml :: "jsnum \<Rightarrow> jsnum \<Rightarrow> nat \<Rightarrow> nat \<Rightarrow> string \<Rightarrow> string \<Rightarrow> xml" where
  "inlineImageXml cx cy picId docPrId imageName relId =
     Tag ''w:drawing'' []
       [Tag ''wp:inline''
          [(''xmlns:a'', S ns_a),
           (''xmlns:pic'', S ''http://schemas.openxmlformats.org/drawingml/2006/picture'')]
          [Tag ''wp:extent'' [(''cx'', N cx), (''cy'', N cy)] [],
           Tag ''wp:docPr'' [(''id'', S (showNat docPrId)),
                             (''name'', S (''Picture '' @ showNat picId))] [],
           Tag ''wp:cNvGraphicFramePr'' []
             [Tag ''a:graphicFrameLocks'' [(''noChangeAspect'', S ''1'')] []],
           Tag ''a:graphic'' []
             [Tag ''a:graphicData''
                [(''uri'', S ''http://schemas.openxmlformats.org/drawingml/2006/picture'')]
                [Tag ''pic:pic'' []
                   [Tag ''pic:nvPicPr'' []
                      [Tag ''pic:cNvPr'' [(''id'', S (showNat picId)), (''name'', S imageName)] [],
                       Tag ''pic:cNvPicPr'' [] []],
                    Tag ''pic:blipFill'' []
                      [Tag ''a:blip'' [(''r:embed'', S relId)] [],
                       Tag ''a:stretch'' [] [Tag ''a:fillRect'' [] []]],
                    Tag ''pic:spPr'' []
                      [Tag ''a:xfrm'' []
                         [Tag ''a:off'' [(''x'', S ''0''), (''y'', S ''0'')] [],
                          Tag ''a:ext'' [(''cx'', N cx), (''cy'', N cy)] []],
                       Tag ''a:prstGeom'' [(''prst'', S ''rect'')] []]]]]]]"

text \<open>A string that is defined and not empty, for \<open>if (s) ...\<close> followed by a use of \<open>s\<close>.\<close>

definition nonEmpty :: "'a list option \<Rightarrow> 'a list option" where
  "nonEmpty v = (case v of Some s \<Rightarrow> if s \<noteq> [] then Some s else None | None \<Rightarrow> None)"

definition buildImageXml :: "builder \<Rightarrow> ExtractedImage \<Rightarrow> xml list \<times> builder" where
  "buildImageXml b img =
     (let lookupKey = orStr (img_mediaPath img) (img_src img) in
      case relationships b lookupKey of
        None \<Rightarrow> ([], b)
      | Some rel \<Rightarrow>
          (case nonEmpty (img_drawingXml img) of
             Some drawingXml \<Rightarrow>
               ([Verbatim (replaceEmbed 0 (''r:embed=\"'' @ rel_id rel @ ''\"'') drawingXml)], b)
           | None \<Rightarrow>
               (let cx = Math_round (jmul (orNum (img_width img) (Number 100)) 12700);
                    cy = Math_round (jmul (orNum (img_height img) (Number 100)) 12700);
                    picId = nextRelId b;
                    docPrId = nextRelId b + 1;
                    imageName = (case nonEmpty (img_mediaPath img) of
                                   Some mp \<Rightarrow> last (splitOn CHR ''/'' mp)
                                 | None \<Rightarrow> ''img.png'')
                in ([inlineImageXml cx cy picId docPrId imageName (rel_id rel)],
                    b\<lparr> nextRelId := nextRelId b + 2 \<rparr>))))"

subsection \<open>Runs and paragraphs\<close>

text \<open>A loop whose body returns a value and the next builder state.\<close>

fun mapState :: "('s \<Rightarrow> 'a \<Rightarrow> 'b \<times> 's) \<Rightarrow> 's \<Rightarrow> 'a list \<Rightarrow> 'b list \<times> 's" where
  "mapState f s [] = ([], s)"
| "mapState f s (x # xs) =
     (let r = f s x; rs = mapState f (snd r) xs in (fst r # fst rs, snd rs))"

text \<open>The pieces of a \<open>split\<close>, with a separator element before every piece but the first.\<close>

fun joinWith :: "xml \<Rightarrow> xml list list \<Rightarrow> xml list" where
  "joinWith sep [] = []"
| "joinWith sep [p] = p"
| "joinWith sep (p # q # ps) = p @ sep # joinWith sep (q # ps)"

definition textSegmentXml :: "ustring \<Rightarrow> xml list" where
  "textSegmentXml seg =
     (if seg \<noteq> []
      then [Tag ''w:t'' [(''xml:space'', S ''preserve'')] [Chars (escapeText seg)]]
      else [])"

definition textLineXml :: "ustring \<Rightarrow> xml list" where
  "textLineXml line =
     (if line \<noteq> [] then joinWith (Tag ''w:tab'' [] []) (map textSegmentXml (splitOn 0x09 line))
      else [])"

definition runTextXml :: "ustring \<Rightarrow> xml list" where
  "runTextXml text = joinWith (Tag ''w:br'' [] []) (map textLineXml (splitOn 0x0A text))"

definition buildRunXml :: "builder \<Rightarrow> ExtractedRun \<Rightarrow> xml \<times> builder" where
  "buildRunXml b run =
     (let rPr = (case r_formatting run of
                   Some formatting \<Rightarrow>
                     if length formatting > 0
                     then [Tag ''w:rPr'' [] (buildRunFormattingXml formatting)] else []
                 | None \<Rightarrow> []);
          content = (case r_image run of
                       Some img \<Rightarrow> buildImageXml b img
                     | None \<Rightarrow>
                         (case nonEmpty (r_text run) of
                            Some text \<Rightarrow> (runTextXml text, b)
                          | None \<Rightarrow> ([Tag ''w:t'' [] []], b)))
      in (Tag ''w:r'' [] (rPr @ fst content), snd content))"

definition numPrXml :: "NumberingInfo \<Rightarrow> xml" where
  "numPrXml numbering =
     Tag ''w:numPr'' []
       ((case num_level numbering of
           Some level \<Rightarrow> [Tag ''w:ilvl'' [(''w:val'', N level)] []]
         | None \<Rightarrow> [])
        @ [Tag ''w:numId'' [(''w:val'', S (num_id numbering))] []])"


definition paragraphPropertiesXml :: "ExtractedParagraph \<Rightarrow> xml list" where
  "paragraphPropertiesXml para =
     (if p_spacing para \<noteq> None \<or> truthy_str (p_alignment para) \<or> p_indentation para \<noteq> None
         \<or> truthy_str (p_styleName para) \<or> p_numbering para \<noteq> None
      then [Tag ''w:pPr'' []
              ((case nonEmpty (p_styleName para) of
                  Some styleName \<Rightarrow> [Tag ''w:pStyle'' [(''w:val'', S styleName)] []]
                | None \<Rightarrow> [])
               @ (case p_numbering para of
                    Some numbering \<Rightarrow> [numPrXml numbering] | None \<Rightarrow> [])
               @ (case p_spacing para of
                    Some spacing \<Rightarrow> [buildSpacingXml spacing] | None \<Rightarrow> [])
               @ (case nonEmpty (p_alignment para) of
                    Some alignment \<Rightarrow> [Tag ''w:jc'' [(''w:val'', S alignment)] []]
                  | None \<Rightarrow> [])
               @ (case p_indentation para of
                    Some indentation \<Rightarrow> [buildIndentationXml indentation] | None \<Rightarrow> []))]
      else [])"

definition buildParagraphXml :: "builder \<Rightarrow> ExtractedParagraph \<Rightarrow> xml \<times> builder" where
  "buildParagraphXml b para =
     (let runs = (if length (p_runs para) > 0
                  then mapState buildRunXml b (p_runs para)
                  else ([Tag ''w:r'' [] [Tag ''w:t'' [] []]], b))
      in (Tag ''w:p'' [] (paragraphPropertiesXml para @ fst runs), snd runs))"

subsection \<open>Tables\<close>

definition borderXml :: "side \<times> BorderInfo option \<Rightarrow> xml list" where
  "borderXml e =
     (case snd e of
        None \<Rightarrow> []
      | Some border \<Rightarrow>
          [Tag (''w:'' @ sideName (fst e))
             [(''w:val'', S (orStr (b_style border) ''single'')),
              (''w:sz'', N (orNum (b_size border) (Number 4))),
              (''w:color'', S (orStr (map_option (replaceFirst ''#'' []) (b_color border))
                                      ''000000''))]
             []])"

definition marginXml :: "side \<times> jsnum option \<Rightarrow> xml list" where
  "marginXml e =
     (case snd e of
        None \<Rightarrow> []
      | Some margin \<Rightarrow>
          [Tag (''w:'' @ sideName (fst e))
             [(''w:w'', N (Math_round (jmul margin 20))), (''w:type'', S ''dxa'')] []])"

definition vMergeXml :: "jsnum option \<Rightarrow> xml list" where
  "vMergeXml rowSpan =
     (case rowSpan of
        None \<Rightarrow> []
      | Some r \<Rightarrow>
          if r = Number 1 \<or> jgt r 0 then [Tag ''w:vMerge'' [(''w:val'', S ''restart'')] []]
          else [Tag ''w:vMerge'' [] []])"

definition cellPropertiesXml :: "ExtractedTableCell \<Rightarrow> xml" where
  "cellPropertiesXml cell =
     Tag ''w:tcPr'' []
       ((case c_width cell of
           Some width \<Rightarrow>
             if truthy_num width
             then [Tag ''w:tcW'' [(''w:w'', N (Math_round (jmul width 20))), (''w:type'', S ''dxa'')] []]
             else [Tag ''w:tcW'' [(''w:w'', S ''0''), (''w:type'', S ''auto'')] []]
         | None \<Rightarrow> [Tag ''w:tcW'' [(''w:w'', S ''0''), (''w:type'', S ''auto'')] []])
        @ (case c_colSpan cell of
             Some colSpan \<Rightarrow>
               if truthy_num colSpan \<and> jgt colSpan 1
               then [Tag ''w:gridSpan'' [(''w:val'', N colSpan)] []] else []
           | None \<Rightarrow> [])
        @ vMergeXml (c_rowSpan cell)
        @ (case nonEmpty (c_backgroundColor cell) of
             Some backgroundColor \<Rightarrow>
               [Tag ''w:shd'' [(''w:val'', S ''clear''),
                               (''w:fill'', S (replaceFirst ''#'' [] backgroundColor))] []]
           | None \<Rightarrow> [])
        @ (case c_borders cell of
             Some borders \<Rightarrow> [Tag ''w:tcBorders'' [] (concat (map borderXml borders))]
           | None \<Rightarrow> [])
        @ (case nonEmpty (c_verticalAlign cell) of
             Some verticalAlign \<Rightarrow> [Tag ''w:vAlign'' [(''w:val'', S verticalAlign)] []]
           | None \<Rightarrow> [])
        @ (case c_margins cell of
             Some margins \<Rightarrow> [Tag ''w:tcMar'' [] (concat (map marginXml margins))]
           | None \<Rightarrow> []))"

definition buildTableCellXml :: "builder \<Rightarrow> ExtractedTableCell \<Rightarrow> xml \<times> builder" where
  "buildTableCellXml b cell =
     (let content = (if length (c_content cell) > 0
                     then mapState buildParagraphXml b (c_content cell)
                     else ([Tag ''w:p'' [] []], b))
      in (Tag ''w:tc'' [] (cellPropertiesXml cell # fst content), snd content))"

definition gridColXml :: "jsnum \<Rightarrow> xml" where
  "gridColXml width = Tag ''w:gridCol'' [(''w:w'', N (Math_round (jmul width 20)))] []"

definition tableGridXml :: "ExtractedTable \<Rightarrow> xml" where
  "tableGridXml table =
     Tag ''w:tblGrid'' []
       (case (case t_columnWidths table of
                Some ws \<Rightarrow> if length ws > 0 then Some ws else None | None \<Rightarrow> None) of
          Some columnWidths \<Rightarrow> map gridColXml columnWidths
        | None \<Rightarrow>
            (case t_rows table of
               [] \<Rightarrow> replicate 1 (Tag ''w:gridCol'' [(''w:w'', S ''2160'')] [])
             | row0 # _ \<Rightarrow>
                 if length (tr_cells row0) > 0
                 then map (\<lambda>cell. gridColXml (orNum (c_width cell) (Number 2160))) (tr_cells row0)
                 else replicate (length (tr_cells row0))
                        (Tag ''w:gridCol'' [(''w:w'', S ''2160'')] [])))"

definition buildTableRowXml :: "builder \<Rightarrow> ExtractedTableRow \<Rightarrow> xml \<times> builder" where
  "buildTableRowXml b row =
     (let cells = mapState buildTableCellXml b (tr_cells row)
      in (Tag ''w:tr'' [] (fst cells), snd cells))"

definition buildTableXml :: "builder \<Rightarrow> ExtractedTable \<Rightarrow> xml \<times> builder" where
  "buildTableXml b table =
     (let rows = mapState buildTableRowXml b (t_rows table)
      in (Tag ''w:tbl'' []
            ([Tag ''w:tblPr'' []
                [Tag ''w:tblStyle'' [(''w:val'', S (orStr (t_tableStyle table) ''TableGrid''))] [],
                 Tag ''w:tblW'' [(''w:w'', S ''0''), (''w:type'', S ''auto'')] [],
                 Tag ''w:tblLook''
                   [(''w:val'', S ''04A0''), (''w:firstRow'', S ''1''), (''w:lastRow'', S ''0''),
                    (''w:firstColumn'', S ''1''), (''w:lastColumn'', S ''0''),
                    (''w:noHBand'', S ''0''), (''w:noVBand'', S ''1'')] []],
              tableGridXml table]
             @ fst rows),
          snd rows))"

subsection \<open>The document part\<close>

definition buildBodyElementXml :: "builder \<Rightarrow> BodyElement \<Rightarrow> xml \<times> builder" where
  "buildBodyElementXml b e =
     (case e of BParagraph p \<Rightarrow> buildParagraphXml b p | BTable t \<Rightarrow> buildTableXml b t)"

definition sectPrXml :: xml where
  "sectPrXml =
     Tag ''w:sectPr'' []
       [Tag ''w:pgSz'' [(''w:w'', S ''12240''), (''w:h'', S ''15840'')] [],
        Tag ''w:pgMar''
          [(''w:top'', S ''1440''), (''w:right'', S ''1800''), (''w:bottom'', S ''1440''),
           (''w:left'', S ''1800''), (''w:header'', S ''720''), (''w:footer'', S ''720''),
           (''w:gutter'', S ''0'')] [],
        Tag ''w:cols'' [(''w:space'', S ''720'')] [],
        Tag ''w:docGrid'' [(''w:linePitch'', S ''360'')] []]"

definition documentXml :: "builder \<Rightarrow> 's ExtractedDocument \<Rightarrow> xml \<times> builder" where
  "documentXml b document =
     (let body = mapState buildBodyElementXml b (d_body document)
      in (Tag ''w:document''
            [(''xmlns:w'', S ns_w), (''xmlns:r'', S ns_r),
             (''xmlns:wp'', S ''http://schemas.openxmlformats.org/drawingml/2006/wordprocessingDrawing''),
             (''xmlns:a'', S ns_a),
             (''xmlns:pic'', S ''http://schemas.openxmlformats.org/drawingml/2006/picture'')]
            [Tag ''w:body'' [] (fst body @ [sectPrXml])],
          snd body))"

definition addDocument ::
  "outArchive \<times> builder \<Rightarrow> 's ExtractedDocument \<Rightarrow> outArchive \<times> builder" where
  "addDocument zb document =
     (let r = documentXml (snd zb) document
      in ((fst zb)(''word/document.xml'' \<mapsto> XmlPart (fst r)), snd r))"

subsection \<open>The numbering part\<close>

definition strTagIf :: "string \<Rightarrow> string option \<Rightarrow> xml list" where
  "strTagIf name v =
     (case nonEmpty v of Some s \<Rightarrow> [Tag name [(''w:val'', S s)] []] | None \<Rightarrow> [])"

definition levelXml :: "nat \<times> NumberingLevel \<Rightarrow> xml" where
  "levelXml e =
     (let levelNum = fst e; level = snd e in
      Tag ''w:lvl'' [(''w:ilvl'', S (showNat levelNum))]
        ([Tag ''w:start''
            [(''w:val'', N (case lvl_start level of Some s \<Rightarrow> s | None \<Rightarrow> Number 1))] [],
          Tag ''w:numFmt''
            [(''w:val'', S (case lvl_format level of Some f \<Rightarrow> f | None \<Rightarrow> ''bullet''))] []]
         @ strTagIf ''w:pStyle'' (lvl_paragraphStyleName level)
         @ [Tag ''w:lvlText''
              [(''w:val'', U (case lvl_text level of Some t \<Rightarrow> t | None \<Rightarrow> [0x25CF]))] []]
         @ strTagIf ''w:lvlJc'' (lvl_alignment level)
         @ (if lvl_indentation level \<noteq> None \<or> lvl_tabs level \<noteq> None
            then [Tag ''w:pPr'' []
                    ((case lvl_tabs level of
                        Some tabs \<Rightarrow>
                          if length tabs > 0
                          then [Tag ''w:tabs'' []
                                  (map (\<lambda>tab. Tag ''w:tab''
                                                 [(''w:val'', S (tab_val tab)),
                                                  (''w:pos'', N (Math_round (jmul (tab_pos tab) 20)))]
                                                 [])
                                       tabs)]
                          else []
                      | None \<Rightarrow> [])
                     @ (case lvl_indentation level of
                          Some indentation \<Rightarrow>
                            [Tag ''w:ind''
                               (twipsAttr ''w:left'' (ind_left indentation)
                                @ twipsAttr ''w:hanging'' (ind_hanging indentation))
                               []]
                        | None \<Rightarrow> []))]
            else [])
         @ (if truthy_str (lvl_fontFamily level) \<or> truthy_str (lvl_fontHint level)
            then [Tag ''w:rPr'' []
                    [Tag ''w:rFonts''
                       ((case nonEmpty (lvl_fontFamily level) of
                           Some f \<Rightarrow> [(''w:ascii'', S f), (''w:hAnsi'', S f)] | None \<Rightarrow> [])
                        @ (case nonEmpty (lvl_fontHint level) of
                             Some h \<Rightarrow> [(''w:hint'', S h)] | None \<Rightarrow> []))
                       []]]
            else [])))"

definition abstractNumXml :: "NumberingDefinition \<Rightarrow> xml" where
  "abstractNumXml numDef =
     Tag ''w:abstractNum'' [(''w:abstractNumId'', S (nd_abstractNumId numDef))]
       (strTagIf ''w:nsid'' (nd_nsid numDef)
        @ [Tag ''w:multiLevelType''
             [(''w:val'', S (orStr (nd_multiLevelType numDef) ''hybridMultilevel''))] []]
        @ strTagIf ''w:tmpl'' (nd_tmpl numDef)
        @ map levelXml (zip [0 ..< length (nd_levels numDef)] (nd_levels numDef)))"

text \<open>
  The first loop over the numbering map: one abstract template per abstract id, the ids
  seen so far being the set \<open>abstractNums\<close>.
\<close>

fun abstractNumsXml :: "string list \<Rightarrow> (string \<times> NumberingDefinition) list \<Rightarrow> xml list" where
  "abstractNumsXml abstractNums [] = []"
| "abstractNumsXml abstractNums (e # rest) =
     (if nd_abstractNumId (snd e) \<notin> set abstractNums
      then abstractNumXml (snd e) # abstractNumsXml (nd_abstractNumId (snd e) # abstractNums) rest
      else abstractNumsXml abstractNums rest)"

definition numXml :: "string \<times> NumberingDefinition \<Rightarrow> xml" where
  "numXml e =
     Tag ''w:num'' [(''w:numId'', S (fst e))]
       [Tag ''w:abstractNumId'' [(''w:val'', S (nd_abstractNumId (snd e)))] []]"

definition fallbackNumberingXml :: "xml list" where
  "fallbackNumberingXml =
     [Tag ''w:abstractNum'' [(''w:abstractNumId'', S ''0'')]
        [Tag ''w:multiLevelType'' [(''w:val'', S ''singleLevel'')] [],
         Tag ''w:lvl'' [(''w:ilvl'', S ''0'')]
           [Tag ''w:start'' [(''w:val'', S ''1'')] [],
            Tag ''w:numFmt'' [(''w:val'', S ''bullet'')] [],
            Tag ''w:lvlText'' [(''w:val'', U [0x25CF])] [],
            Tag ''w:lvlJc'' [(''w:val'', S ''left'')] [],
            Tag ''w:pPr'' [] [Tag ''w:ind'' [(''w:left'', S ''720''), (''w:hanging'', S ''360'')] []],
            Tag ''w:rPr'' []
              [Tag ''w:rFonts'' [(''w:ascii'', S ''Symbol''), (''w:hAnsi'', S ''Symbol'')] []]]],
      Tag ''w:abstractNum'' [(''w:abstractNumId'', S ''1'')]
        [Tag ''w:multiLevelType'' [(''w:val'', S ''singleLevel'')] [],
         Tag ''w:lvl'' [(''w:ilvl'', S ''0'')]
           [Tag ''w:start'' [(''w:val'', S ''1'')] [],
            Tag ''w:numFmt'' [(''w:val'', S ''decimal'')] [],
            Tag ''w:lvlText'' [(''w:val'', S ''%1.'')] [],
            Tag ''w:lvlJc'' [(''w:val'', S ''left'')] [],
            Tag ''w:pPr'' []
              [Tag ''w:ind'' [(''w:left'', S ''720''), (''w:hanging'', S ''360'')] []]]],
      Tag ''w:num'' [(''w:numId'', S ''1'')] [Tag ''w:abstractNumId'' [(''w:val'', S ''0'')] []],
      Tag ''w:num'' [(''w:numId'', S ''2'')] [Tag ''w:abstractNumId'' [(''w:val'', S ''1'')] []]]"

definition numberingXml :: "'s ExtractedDocument \<Rightarrow> xml" where
  "numberingXml document =
     (let hasNumbering = (case d_numbering document of
                            Some numbering \<Rightarrow> length numbering > 0 | None \<Rightarrow> False);
          hasNumberedParagraphs = list_ex (\<lambda>p. p_numbering p \<noteq> None) (d_paragraphs document)
      in if \<not> hasNumbering \<and> \<not> hasNumberedParagraphs
         then Tag ''w:numbering'' [(''xmlns:w'', S ns_w)] []
         else Tag ''w:numbering'' [(''xmlns:w'', S ns_w)]
                (case (if hasNumbering then d_numbering document else None) of
                   Some numbering \<Rightarrow> abstractNumsXml [] numbering @ map numXml numbering
                 | None \<Rightarrow> fallbackNumberingXml))"

definition addNumbering :: "outArchive \<Rightarrow> 's ExtractedDocument \<Rightarrow> outArchive" where
  "addNumbering z document = z(''word/numbering.xml'' \<mapsto> XmlPart (numberingXml document))"

subsection \<open>Relationships and media\<close>

definition relType_image :: string where
  "relType_image = ''http://schemas.openxmlformats.org/officeDocument/2006/relationships/image''"

definition relType_chart :: string where
  "relType_chart = ''http://schemas.openxmlformats.org/officeDocument/2006/relationships/chart''"

definition relationshipXml :: "string \<Rightarrow> string \<Rightarrow> string \<Rightarrow> xml" where
  "relationshipXml relId relType target =
     Tag ''Relationship'' [(''Id'', S relId), (''Type'', S relType), (''Target'', S target)] []"

definition fixedRelationships :: "xml list" where
  "fixedRelationships =
     [relationshipXml ''rId1''
        ''http://schemas.openxmlformats.org/officeDocument/2006/relationships/styles'' ''styles.xml'',
      relationshipXml ''rId2''
        ''http://schemas.openxmlformats.org/officeDocument/2006/relationships/numbering''
        ''numbering.xml'',
      relationshipXml ''rId3''
        ''http://schemas.openxmlformats.org/officeDocument/2006/relationships/settings''
        ''settings.xml'',
      relationshipXml ''rId4''
        ''http://schemas.openxmlformats.org/officeDocument/2006/relationships/webSettings''
        ''webSettings.xml'']"

text \<open>One turn of the loop over the keys of \<open>mediaFiles\<close>.\<close>

definition mediaRelStep :: "xml list \<times> builder \<Rightarrow> string \<Rightarrow> xml list \<times> builder" where
  "mediaRelStep st filePath =
     (let b = snd st;
          target = replaceFirst ''word/'' [] filePath;
          relId = ''rId'' @ showNat (nextRelId b);
          ext = toLowerCase (last (splitOn CHR ''.'' filePath));
          relType = (if ext = ''xml'' \<and> includesStr filePath ''/charts/''
                     then relType_chart else relType_image)
      in (fst st @ [relationshipXml relId relType target],
          b\<lparr> relationships := (relationships b)
                 (filePath \<mapsto> \<lparr> rel_id = relId, rel_type = ''image'', rel_target = target \<rparr>),
             nextRelId := nextRelId b + 1 \<rparr>))"

text \<open>\<open>image.contentType?.split('/')[1] || 'png'\<close>.\<close>

definition imageExt :: "ExtractedImage \<Rightarrow> string" where
  "imageExt img =
     (case img_contentType img of
        None \<Rightarrow> ''png''
      | Some ct \<Rightarrow>
          (case splitOn CHR ''/'' ct of
             _ # e # _ \<Rightarrow> if e \<noteq> [] then e else ''png''
           | _ \<Rightarrow> ''png''))"


text \<open>
  One turn of the loop over the runs of the paragraphs; the state carries \<open>imageCount\<close>.
\<close>

definition newImageRelStep ::
  "xml list \<times> builder \<times> nat \<Rightarrow> ExtractedRun \<Rightarrow> xml list \<times> builder \<times> nat" where
  "newImageRelStep st run =
     (case r_image run of
        None \<Rightarrow> st
      | Some img \<Rightarrow>
          if truthy_str (img_data img) \<and> \<not> truthy_str (img_mediaPath img)
          then (let b = fst (snd st);
                    imageCount = snd (snd st) + 1;
                    relId = ''rId'' @ showNat (nextRelId b);
                    target = ''media/image'' @ showNat imageCount @ ''.'' @ imageExt img
                in (fst st @ [relationshipXml relId relType_image target],
                    b\<lparr> relationships := (relationships b)
                           (img_src img \<mapsto> \<lparr> rel_id = relId, rel_type = ''image'',
                                              rel_target = target \<rparr>),
                       nextRelId := nextRelId b + 1 \<rparr>,
                    imageCount))
          else st)"

definition allRuns :: "'s ExtractedDocument \<Rightarrow> ExtractedRun list" where
  "allRuns document = concat (map p_runs (d_paragraphs document))"

definition documentRels :: "builder \<Rightarrow> 's ExtractedDocument \<Rightarrow> xml list \<times> builder" where
  "documentRels b document =
     (let st0 = (fixedRelationships, b\<lparr> nextRelId := 5 \<rparr>);
          st1 = (case d_mediaFiles document of
                   Some mediaFiles \<Rightarrow>
                     if length mediaFiles > 0
                     then foldl mediaRelStep st0 (map fst mediaFiles) else st0
                 | None \<Rightarrow> st0);
          st2 = foldl newImageRelStep (fst st1, snd st1, 0) (allRuns document)
      in (fst st2, fst (snd st2)))"

definition addDocumentRels ::
  "outArchive \<times> builder \<Rightarrow> 's ExtractedDocument \<Rightarrow> outArchive \<times> builder" where
  "addDocumentRels zb document =
     (let r = documentRels (snd zb) document
      in ((fst zb)(''word/_rels/document.xml.rels'' \<mapsto>
                     XmlPart (Tag ''Relationships'' [(''xmlns'', S ns_pr)] (fst r))),
          snd r))"

text \<open>The fallback loop of \<open>addImages\<close>: every run image with data is decoded and written.\<close>

definition decodeImageStep ::
  "platform \<Rightarrow> outArchive \<times> nat \<Rightarrow> ExtractedRun \<Rightarrow> outArchive \<times> nat" where
  "decodeImageStep pf st run =
     (case r_image run of
        None \<Rightarrow> st
      | Some img \<Rightarrow>
          (case nonEmpty (img_data img) of
             None \<Rightarrow> st
           | Some data \<Rightarrow>
               let imageCount = snd st + 1
               in ((fst st)(''word/media/image'' @ showNat imageCount @ ''.'' @ imageExt img
                              \<mapsto> Binary (atob pf data)),
                   imageCount)))"

text \<open>One turn of the loop that copies the preserved media files.\<close>

definition putMedia :: "outArchive \<Rightarrow> string \<times> bytes \<Rightarrow> outArchive" where
  "putMedia z e = z(fst e \<mapsto> Binary (snd e))"

definition addImages :: "platform \<Rightarrow> outArchive \<Rightarrow> 's ExtractedDocument \<Rightarrow> outArchive" where
  "addImages pf z document =
     (case (case d_mediaFiles document of
              Some m \<Rightarrow> if length m > 0 then Some m else None | None \<Rightarrow> None) of
        Some mediaFiles \<Rightarrow> foldl putMedia z mediaFiles
      | None \<Rightarrow> fst (foldl (decodeImageStep pf) (z, 0) (allRuns document)))"

subsection \<open>The entry point\<close>

text \<open>
  \<open>addStyles\<close> serialises the style catalogue and the defaults; it is a parameter, as the
  catalogue is.  The parts whose text is fixed are entered as \<open>Boilerplate\<close>.
\<close>

definition addFixed :: "outArchive \<Rightarrow> string list \<Rightarrow> outArchive" where
  "addFixed z names = foldl (\<lambda>z' n. z'(n \<mapsto> Boilerplate)) z names"

definition build ::
  "platform \<Rightarrow> ('s ExtractedDocument \<Rightarrow> xml) \<Rightarrow> builder \<Rightarrow> 's ExtractedDocument
     \<Rightarrow> outArchive \<times> builder" where
  "build pf stylesXml b document =
     (let z1 = addFixed Map.empty
                 [''[Content_Types].xml'', ''_rels/.rels'', ''docProps/core.xml'',
                  ''docProps/app.xml''];
          zb2 = addDocumentRels (z1, b) document;
          z3 = addFixed (fst zb2) [''word/settings.xml'', ''word/webSettings.xml''];
          z4 = z3(''word/styles.xml'' \<mapsto> XmlPart (stylesXml document));
          z5 = addNumbering z4 document;
          zb6 = addDocument (z5, snd zb2) document
      in (addImages pf (fst zb6) document, snd zb6))"

section \<open>The second XML adapter\<close>








section \<open>Reading the XML that was built\<close>

fun isTag :: "string \<Rightarrow> xml \<Rightarrow> bool" where
  "isTag name (Tag n as cs) = (n = name)"
| "isTag name _ = False"




text \<open>Every paragraph element of a tree has a run among its children.\<close>

fun everyParagraphHasRun :: "xml \<Rightarrow> bool" where
  "everyParagraphHasRun (Tag n as cs) =
     ((n \<noteq> ''w:p'' \<or> list_ex (isTag ''w:r'') cs) \<and> list_all everyParagraphHasRun cs)"
| "everyParagraphHasRun _ = True"

text \<open>Every cell element of a tree has a paragraph among its children.\<close>

fun everyCellHasParagraph :: "xml \<Rightarrow> bool" where
  "everyCellHasParagraph (Tag n as cs) =
     ((n \<noteq> ''w:tc'' \<or> list_ex (isTag ''w:p'') cs) \<and> list_all everyCellHasParagraph cs)"
| "everyCellHasParagraph _ = True"









section \<open>Concrete inputs\<close>

definition samplePlatform :: platform where
  "samplePlatform =
     \<lparr> utf8Decode = map ucast,
       parseFromString = (\<lambda>s. Element ''document'' [] []),
       base64 = (\<lambda>bs. ''QUJD''),
       atob = (\<lambda>s. [0x41, 0x42, 0x43]) \<rparr>"

definition sampleExtractor :: extractor where
  "sampleExtractor =
     \<lparr> x_platform = samplePlatform, x_zip = [],
       x_relationships = [''rId5'' \<mapsto> ''media/image1.png''] \<rparr>"

definition sampleBuilder :: builder where
  "sampleBuilder = \<lparr> relationships = Map.empty, nextRelId = 1 \<rparr>"



text \<open>A run holding one explicit page break: \<open><w:r><w:br w:type="page"/></w:r>\<close>.\<close>

definition samplePageBreakRun :: node where
  "samplePageBreakRun =
     Element ''r'' [] [Element ''br'' [DAttr ''w:type'' (Some ns_w) ''type'' ''page''] []]"

text \<open>A drawing whose picture refers to the relationship \<open>rId5\<close>.\<close>

definition sampleDrawing :: node where
  "sampleDrawing =
     Element ''drawing'' []
       [Element ''inline'' []
          [Element ''graphic'' []
             [Element ''graphicData'' []
                [Element ''pic'' []
                   [Element ''blipFill'' []
                      [Element ''blip'' [DAttr ''r:embed'' (Some ns_r) ''embed'' ''rId5''] []]]]]]]"

text \<open>A run with a text child and a drawing child.\<close>

definition sampleTextImageRun :: node where
  "sampleTextImageRun = Element ''r'' [] [Element ''t'' [] [Text (ustr ''Hi'')], sampleDrawing]"

definition sampleImage :: ExtractedImage where
  "sampleImage =
     \<lparr> img_src = ''rId5'', img_mediaPath = Some ''word/media/image1.png'', img_data = None,
       img_contentType = None, img_width = None, img_height = None, img_drawingXml = None \<rparr>"

text \<open>Cells whose properties hold a \<open>vMerge\<close> without a value, with \<open>restart\<close>, and none.\<close>

definition sampleCellContinue :: node where
  "sampleCellContinue = Element ''tc'' [] [Element ''tcPr'' [] [Element ''vMerge'' [] []]]"

definition sampleCellRestart :: node where
  "sampleCellRestart =
     Element ''tc'' []
       [Element ''tcPr'' []
          [Element ''vMerge'' [DAttr ''w:val'' (Some ns_w) ''val'' ''restart''] []]]"

definition sampleCellPlain :: node where
  "sampleCellPlain = Element ''tc'' [] [Element ''tcPr'' [] []]"





text \<open>An archive without a document part, and one whose document part has no body.\<close>

definition sampleResolvers :: "unit resolvers" where
  "sampleResolvers = \<lparr> loadStyles = (\<lambda>ar. ((), None, None)), loadNumbering = (\<lambda>ar. []) \<rparr>"

definition sampleArchiveNoBody :: archive where
  "sampleArchiveNoBody = [(''word/document.xml'', \<lparr> ze_dir = False, ze_content = [0x3C] \<rparr>)]"

text \<open>A document whose body is one table of one cell without content.\<close>

definition sampleEmptyCellTable :: ExtractedTable where
  "sampleEmptyCellTable =
     \<lparr> t_rows = [\<lparr> tr_cells = [emptyCell] \<rparr>], t_columnWidths = None, t_tableStyle = None \<rparr>"

definition sampleEmptyCellDocument :: "unit ExtractedDocument" where
  "sampleEmptyCellDocument =
     \<lparr> d_paragraphs = [], d_tables = [sampleEmptyCellTable],
       d_body = [BTable sampleEmptyCellTable], d_styles = (), d_defaults = None,
       d_paragraphDefaults = None, d_numbering = None, d_mediaFiles = None \<rparr>"

definition sampleStylesXml :: "unit ExtractedDocument \<Rightarrow> xml" where
  "sampleStylesXml document = Tag ''w:styles'' [(''xmlns:w'', S ns_w)] []"

text \<open>A document of one list paragraph, without numbering definitions.\<close>

definition sampleListParagraph :: ExtractedParagraph where
  "sampleListParagraph =
     \<lparr> p_runs = [\<lparr> r_text = Some (ustr ''item''), r_formatting = None, r_image = None \<rparr>],
       p_spacing = None, p_alignment = None, p_indentation = None, p_styleName = None,
       p_numbering = Some \<lparr> num_id = ''1'', num_level = Some (Number 0) \<rparr>,
       p_isEmpty = False \<rparr>"






text \<open>A document whose only list paragraph sits in a table cell.\<close>

definition sampleCellListTable :: ExtractedTable where
  "sampleCellListTable =
     \<lparr> t_rows = [\<lparr> tr_cells = [emptyCell\<lparr> c_content := [sampleListParagraph] \<rparr>] \<rparr>],
       t_columnWidths = None, t_tableStyle = None \<rparr>"

definition sampleCellListDocument :: "unit ExtractedDocument" where
  "sampleCellListDocument =
     \<lparr> d_paragraphs = [], d_tables = [sampleCellListTable],
       d_body = [BTable sampleCellListTable], d_styles = (), d_defaults = None,
       d_paragraphDefaults = None, d_numbering = None, d_mediaFiles = None \<rparr>"

section \<open>Unit conversion\<close>







section \<open>Vertical merge of built cells\<close>

lemma mapState_paragraph_tags:
  "\<forall>x \<in> set (fst (mapState buildParagraphXml b ps)). \<exists>as cs. x = Tag ''w:p'' as cs"
proof (induction ps arbitrary: b)
  case Nil
  then show ?case by simp
next
  case (Cons p ps)
  then show ?case by (simp add: Let_def buildParagraphXml_def)
qed







section \<open>Evaluating the accessors\<close>

lemmas attr_eval = attr_def attr_ns_def getNamedItem_def getNamedItemNS_def
  commonNamespaces_def List.map_filter_def

lemmas elem_eval = element_def elements_def

lemma elements_are_elements: "\<forall>c \<in> set (elements e name). isElement c"
  by (simp add: elements_def)

lemma elements_filter:
  "elements (Element n as (filter P cs)) None = filter P (elements (Element n as cs) None)"
  by (induction cs) (auto simp: elements_def)

section \<open>Text and image of an extracted run\<close>

lemma foldl_runChild_text:
  "fst (foldl (runChild x) (t, i) cs) = t @ concat (map runPiece cs)"
  by (induction cs arbitrary: t i) (simp_all add: runChild_def runPiece_def Let_def)

text \<open>
  The text of a run is the concatenation, in order, of what its child elements
  contribute, with the five replacements applied to the whole of it.
\<close>

lemma extractRun_text:
  "r_text (extractRun x rElem) =
     (let t = normalizeTerminators (concat (map runPiece (elements rElem None)))
      in if t = [] then None else Some t)"
  by (simp add: extractRun_def Let_def foldl_runChild_text)

text \<open>No extracted text holds a form feed, whatever produced it.\<close>

lemma form_feed_never_extracted:
  "r_text (extractRun x rElem) = Some t \<Longrightarrow> 0x0C \<notin> set t"
  by (auto simp: extractRun_def Let_def normalizeTerminators_def replaceAll_def
      split: if_splits)

text \<open>
  Claim C3, at the run \<open><w:r><w:br w:type="page"/></w:r>\<close>.  The break contributes a form
  feed, and the replacement of form feeds, applied to the gathered text, turns it into a
  space: the extracted text is one space, the form feed does not survive.
\<close>

theorem page_break_form_feed_lost:
  "runPiece (Element ''br'' [DAttr ''w:type'' (Some ns_w) ''type'' ''page''] []) = [0x0C] \<and>
   r_text (extractRun sampleExtractor samplePageBreakRun) = Some [0x20]"
  by (simp add: extractRun_text samplePageBreakRun_def elem_eval runPiece_def attr_eval
        normalizeTerminators_def replaceAll_def)

lemma sampleDrawing_image: "extractDrawing sampleExtractor sampleDrawing = Some sampleImage"
  by (simp add: extractDrawing_def sampleDrawing_def sampleExtractor_def sampleImage_def
        elem_eval attr_eval loadImageData_def zipFile_def ns_r_def ns_pr_def ns_w_def ns_a_def)

lemma sample_run_extracted:
  "extractRun sampleExtractor sampleTextImageRun
     = \<lparr> r_text = Some (ustr ''Hi''), r_formatting = None, r_image = Some sampleImage \<rparr>"
  using sampleDrawing_image
  by (simp add: extractRun_def sampleTextImageRun_def elem_eval runChild_def Let_def
        sampleDrawing_def ustr_def normalizeTerminators_def replaceAll_def)

lemma runPiece_image_child: "isElement c \<Longrightarrow> isImageChild c \<Longrightarrow> runPiece c = []"
  by (cases c) (auto simp: runPiece_def isImageChild_def isNamed_def Let_def)

lemma text_ignores_image_children:
  assumes "\<forall>c \<in> set cs. isElement c"
  shows "concat (map runPiece (filter (\<lambda>c. \<not> isImageChild c) cs)) = concat (map runPiece cs)"
  using assms by (induction cs) (auto simp: runPiece_image_child)

lemma runChild_other_child:
  "isElement c \<Longrightarrow> \<not> isImageChild c \<Longrightarrow> snd (runChild x (t, i) c) = i"
  by (cases c) (auto simp: runChild_def isImageChild_def isNamed_def Let_def)

lemma runChild_image_child:
  "isElement c \<Longrightarrow> isImageChild c \<Longrightarrow> snd (runChild x (t, i) c) = snd (runChild x (t', i') c)"
  by (cases c) (auto simp: runChild_def isImageChild_def isNamed_def Let_def)

lemma image_ignores_text:
  assumes "\<forall>c \<in> set cs. isElement c"
  shows "snd (foldl (runChild x) (t, i) cs)
           = snd (foldl (runChild x) (t', i) (filter isImageChild cs))"
  using assms
proof (induction cs arbitrary: t t' i)
  case Nil
  then show ?case by simp
next
  case (Cons c cs)
  obtain t1 i1 where r: "runChild x (t, i) c = (t1, i1)" by (cases "runChild x (t, i) c")
  show ?case
  proof (cases "isImageChild c")
    case True
    obtain t2 i2 where r2: "runChild x (t', i) c = (t2, i2)" by (cases "runChild x (t', i) c")
    have "i1 = i2" using runChild_image_child [of c x t i t' i] Cons.prems True r r2 by simp
    then show ?thesis using Cons r r2 True by simp
  next
    case False
    have "i1 = i" using runChild_other_child [of c x t i] Cons.prems False r by simp
    then show ?thesis using Cons r False by simp
  qed
qed

lemma image_needs_image_child:
  assumes "\<forall>c \<in> set cs. isElement c" and "\<forall>c \<in> set cs. \<not> isImageChild c"
  shows "snd (foldl (runChild x) (t, i) cs) = i"
  using assms
proof (induction cs arbitrary: t)
  case Nil
  then show ?case by simp
next
  case (Cons c cs)
  obtain t1 i1 where r: "runChild x (t, i) c = (t1, i1)" by (cases "runChild x (t, i) c")
  have "i1 = i" using runChild_other_child [of c x t i] Cons.prems r by simp
  then show ?case using Cons r by simp
qed

text \<open>
  Claim C4 as stated fails: the run \<open><w:r><w:t>Hi</w:t><w:drawing>...</w:drawing></w:r>\<close>
  is extracted with the text \<open>Hi\<close> and with an image.
\<close>

theorem run_text_and_image_counterexample:
  "r_text (extractRun sampleExtractor sampleTextImageRun) = Some (ustr ''Hi'') \<and>
   ustr ''Hi'' \<noteq> [] \<and>
   r_image (extractRun sampleExtractor sampleTextImageRun) = Some sampleImage"
  by (simp add: sample_run_extracted ustr_def)

text \<open>
  Claim C4, amended.  The text of an extracted run is never a defined empty string; a run
  has an image only if it has a drawing or picture child; and the two are filled
  independently: the text is that of the run without its drawing and picture children,
  the image is that of the run with only those children.  So a run holds text, an image,
  neither, or both.
\<close>

theorem run_text_image_independent:
  "r_text (extractRun x rElem) \<noteq> Some [] \<and>
   (r_image (extractRun x rElem) \<noteq> None
      \<longrightarrow> (\<exists>c \<in> set (elements rElem None). isImageChild c)) \<and>
   r_text (extractRun x (Element n as cs))
     = r_text (extractRun x (Element n as (filter (\<lambda>c. \<not> isImageChild c) cs))) \<and>
   r_image (extractRun x (Element n as cs))
     = r_image (extractRun x (Element n as (filter isImageChild cs)))"
proof (intro conjI)
  show "r_text (extractRun x rElem) \<noteq> Some []"
    by (simp add: extractRun_def Let_def)
next
  show "r_image (extractRun x rElem) \<noteq> None
          \<longrightarrow> (\<exists>c \<in> set (elements rElem None). isImageChild c)"
  proof (rule impI, rule ccontr)
    assume img: "r_image (extractRun x rElem) \<noteq> None"
      and no: "\<not> (\<exists>c \<in> set (elements rElem None). isImageChild c)"
    have "snd (foldl (runChild x) ([], None) (elements rElem None)) = None"
      using no by (intro image_needs_image_child elements_are_elements) simp
    then show False using img by (simp add: extractRun_def Let_def)
  qed
next
  have "concat (map runPiece (filter (\<lambda>c. \<not> isImageChild c) (elements (Element n as cs) None)))
          = concat (map runPiece (elements (Element n as cs) None))"
    by (rule text_ignores_image_children) (rule elements_are_elements)
  then show "r_text (extractRun x (Element n as cs))
     = r_text (extractRun x (Element n as (filter (\<lambda>c. \<not> isImageChild c) cs)))"
    by (simp add: extractRun_def Let_def foldl_runChild_text elements_filter)
next
  show "r_image (extractRun x (Element n as cs))
     = r_image (extractRun x (Element n as (filter isImageChild cs)))"
  proof -
    have "snd (foldl (runChild x) ([], None) (elements (Element n as cs) None))
            = snd (foldl (runChild x) ([], None)
                     (filter isImageChild (elements (Element n as cs) None)))"
      by (rule image_ignores_text) (rule elements_are_elements)
    then show ?thesis
      by (simp add: extractRun_def Let_def elements_filter)
  qed
qed


theorem run_text_image_independent_witness:
  "r_image (extractRun sampleExtractor sampleTextImageRun) \<noteq> None \<and>
   (\<exists>c \<in> set (elements sampleTextImageRun None). isImageChild c) \<and>
   r_text (extractRun sampleExtractor sampleTextImageRun) \<noteq> Some [] \<and>
   r_text (extractRun sampleExtractor sampleTextImageRun)
     = r_text (extractRun sampleExtractor (Element ''r'' [] [Element ''t'' [] [Text (ustr ''Hi'')]])) \<and>
   r_image (extractRun sampleExtractor sampleTextImageRun)
     = r_image (extractRun sampleExtractor (Element ''r'' [] [sampleDrawing]))"
proof -
  have i: "r_image (extractRun sampleExtractor sampleTextImageRun) \<noteq> None"
    by (simp add: sample_run_extracted)
  have f1: "filter (\<lambda>c. \<not> isImageChild c) [Element ''t'' [] [Text (ustr ''Hi'')], sampleDrawing]
              = [Element ''t'' [] [Text (ustr ''Hi'')]]"
    by (simp add: isImageChild_def isNamed_def sampleDrawing_def)
  have f2: "filter isImageChild [Element ''t'' [] [Text (ustr ''Hi'')], sampleDrawing]
              = [sampleDrawing]"
    by (simp add: isImageChild_def isNamed_def sampleDrawing_def)
  have eq: "Element ''r'' [] [Element ''t'' [] [Text (ustr ''Hi'')], sampleDrawing]
              = sampleTextImageRun"
    by (simp add: sampleTextImageRun_def)
  show ?thesis
    using i
      run_text_image_independent [of sampleExtractor sampleTextImageRun "''r''" "[]"
        "[Element ''t'' [] [Text (ustr ''Hi'')], sampleDrawing]"]
    unfolding f1 f2 eq by blast
qed

section \<open>The level of a numbering reference\<close>




section \<open>Vertical merge of extracted cells\<close>

text \<open>
  Claim C6 as stated fails: a cell whose properties hold \<open><w:vMerge/>\<close>, the element
  without a value, is extracted with \<open>rowSpan = 0\<close>, not 1.
\<close>

theorem vMerge_absent_value_counterexample:
  "element sampleCellContinue ''tcPr'' = Some (Element ''tcPr'' [] [Element ''vMerge'' [] []]) \<and>
   attr (Element ''vMerge'' [] []) ''val'' = None \<and>
   c_rowSpan (extractCellProperties sampleCellContinue) = Some (Number 0) \<and>
   c_rowSpan (extractCellProperties sampleCellContinue) \<noteq> Some (Number 1)"
  by (simp add: sampleCellContinue_def extractCellProperties_def cellRowSpan_def elem_eval
        attr_eval emptyCell_def)

text \<open>
  Claim C6, amended.  A \<open>vMerge\<close> with the value \<open>restart\<close> gives \<open>rowSpan = 1\<close>; a
  \<open>vMerge\<close> element without a value gives \<open>rowSpan = 0\<close>; a cell without a \<open>vMerge\<close>
  element, or without cell properties, gets no \<open>rowSpan\<close>.
\<close>

theorem vMerge_decoding:
  "(element tcElem ''tcPr'' = None \<longrightarrow> c_rowSpan (extractCellProperties tcElem) = None) \<and>
   (element tcElem ''tcPr'' = Some tcPr \<and> element tcPr ''vMerge'' = None
      \<longrightarrow> c_rowSpan (extractCellProperties tcElem) = None) \<and>
   (element tcElem ''tcPr'' = Some tcPr \<and> element tcPr ''vMerge'' = Some vMerge
      \<and> attr vMerge ''val'' = Some ''restart''
      \<longrightarrow> c_rowSpan (extractCellProperties tcElem) = Some (Number 1)) \<and>
   (element tcElem ''tcPr'' = Some tcPr \<and> element tcPr ''vMerge'' = Some vMerge
      \<and> attr vMerge ''val'' = None
      \<longrightarrow> c_rowSpan (extractCellProperties tcElem) = Some (Number 0))"
  by (simp add: extractCellProperties_def cellRowSpan_def emptyCell_def)

theorem vMerge_decoding_witness:
  "c_rowSpan (extractCellProperties (Element ''tc'' [] [])) = None \<and>
   c_rowSpan (extractCellProperties sampleCellPlain) = None \<and>
   c_rowSpan (extractCellProperties sampleCellRestart) = Some (Number 1) \<and>
   c_rowSpan (extractCellProperties sampleCellContinue) = Some (Number 0)"
proof -
  have e0: "element (Element ''tc'' [] []) ''tcPr'' = None"
    by (simp add: elem_eval)
  have e1: "element sampleCellPlain ''tcPr'' = Some (Element ''tcPr'' [] [])"
    "element (Element ''tcPr'' [] []) ''vMerge'' = None"
    by (simp_all add: sampleCellPlain_def elem_eval)
  have e2: "element sampleCellRestart ''tcPr''
              = Some (Element ''tcPr'' []
                        [Element ''vMerge'' [DAttr ''w:val'' (Some ns_w) ''val'' ''restart''] []])"
    "element (Element ''tcPr'' []
                [Element ''vMerge'' [DAttr ''w:val'' (Some ns_w) ''val'' ''restart''] []]) ''vMerge''
       = Some (Element ''vMerge'' [DAttr ''w:val'' (Some ns_w) ''val'' ''restart''] [])"
    "attr (Element ''vMerge'' [DAttr ''w:val'' (Some ns_w) ''val'' ''restart''] []) ''val''
       = Some ''restart''"
    by (simp_all add: sampleCellRestart_def elem_eval attr_eval)
  have e3: "element sampleCellContinue ''tcPr''
              = Some (Element ''tcPr'' [] [Element ''vMerge'' [] []])"
    "element (Element ''tcPr'' [] [Element ''vMerge'' [] []]) ''vMerge''
       = Some (Element ''vMerge'' [] [])"
    "attr (Element ''vMerge'' [] []) ''val'' = None"
    by (simp_all add: sampleCellContinue_def elem_eval attr_eval)
  show ?thesis
    using vMerge_decoding [of "Element ''tc'' [] []" "Element ''tcPr'' [] []"
                              "Element ''vMerge'' [] []"]
      vMerge_decoding [of sampleCellPlain "Element ''tcPr'' [] []" "Element ''vMerge'' [] []"]
      vMerge_decoding [of sampleCellRestart
        "Element ''tcPr'' [] [Element ''vMerge'' [DAttr ''w:val'' (Some ns_w) ''val'' ''restart''] []]"
        "Element ''vMerge'' [DAttr ''w:val'' (Some ns_w) ''val'' ''restart''] []"]
      vMerge_decoding [of sampleCellContinue "Element ''tcPr'' [] [Element ''vMerge'' [] []]"
        "Element ''vMerge'' [] []"]
      e0 e1 e2 e3
    by simp
qed

section \<open>Fatal errors of extraction\<close>

text \<open>
  Claim C8.  \<open>extract\<close> returns an error, and so no document, when the archive has no
  \<open>word/document.xml\<close> entry (or an empty one), and when the root element of that part
  has no \<open>body\<close> child.
\<close>

theorem extract_fatal:
  "(zipFile ar ''word/document.xml'' = None
      \<longrightarrow> extractDocx pf rs ar = Inl DocumentXmlNotFound) \<and>
   (zipFile ar ''word/document.xml'' = Some f \<and> utf8Decode pf (ze_content f) = []
      \<longrightarrow> extractDocx pf rs ar = Inl DocumentXmlNotFound) \<and>
   (zipFile ar ''word/document.xml'' = Some f \<and> utf8Decode pf (ze_content f) \<noteq> []
      \<and> element (parseFromString pf (utf8Decode pf (ze_content f))) ''body'' = None
      \<longrightarrow> extractDocx pf rs ar = Inl BodyNotFound)"
  by (simp add: extractDocx_def Let_def)

theorem extract_fatal_witness:
  "zipFile [] ''word/document.xml'' = None \<and>
   extractDocx samplePlatform sampleResolvers [] = Inl DocumentXmlNotFound \<and>
   zipFile sampleArchiveNoBody ''word/document.xml''
     = Some \<lparr> ze_dir = False, ze_content = [0x3C] \<rparr> \<and>
   utf8Decode samplePlatform [0x3C] \<noteq> [] \<and>
   element (parseFromString samplePlatform (utf8Decode samplePlatform [0x3C])) ''body'' = None \<and>
   extractDocx samplePlatform sampleResolvers sampleArchiveNoBody = Inl BodyNotFound"
proof -
  have z0: "zipFile [] ''word/document.xml'' = None"
    by (simp add: zipFile_def)
  have z1: "zipFile sampleArchiveNoBody ''word/document.xml''
              = Some \<lparr> ze_dir = False, ze_content = [0x3C] \<rparr>"
    by (simp add: zipFile_def sampleArchiveNoBody_def)
  have d: "utf8Decode samplePlatform [0x3C] \<noteq> []"
    by (simp add: samplePlatform_def)
  have b: "element (parseFromString samplePlatform (utf8Decode samplePlatform [0x3C])) ''body''
             = None"
    by (simp add: samplePlatform_def elem_eval)
  show ?thesis
    using z0 z1 d b
      extract_fatal [of "[]" samplePlatform sampleResolvers
                        "\<lparr> ze_dir = False, ze_content = [0x3C] \<rparr>"]
      extract_fatal [of sampleArchiveNoBody samplePlatform sampleResolvers
                        "\<lparr> ze_dir = False, ze_content = [0x3C] \<rparr>"]
    by simp
qed

section \<open>Runs in paragraphs, paragraphs in cells\<close>

lemma mapState_run_tags:
  "\<forall>x \<in> set (fst (mapState buildRunXml b rs)). isTag ''w:r'' x"
  by (induction rs arbitrary: b) (simp_all add: Let_def buildRunXml_def)

lemma mapState_length: "length (fst (mapState f s xs)) = length xs"
  by (induction xs arbitrary: s) (simp_all add: Let_def)

text \<open>A paragraph built by \<open>buildParagraphXml\<close> has a run among its children.\<close>

lemma paragraph_has_run:
  "list_ex (isTag ''w:r'') (tagChildren (fst (buildParagraphXml b para)))"
proof (cases "p_runs para")
  case Nil
  then show ?thesis by (simp add: buildParagraphXml_def)
next
  case (Cons r rs)
  obtain y ys where ys: "fst (mapState buildRunXml b (p_runs para)) = y # ys"
    using mapState_length [of buildRunXml b "p_runs para"] Cons
    by (cases "fst (mapState buildRunXml b (p_runs para))") auto
  have "isTag ''w:r'' y"
    using mapState_run_tags [of b "p_runs para"] ys by simp
  then show ?thesis using Cons ys by (simp add: buildParagraphXml_def Let_def)
qed

text \<open>A built cell has a paragraph among its children.\<close>

lemma cell_has_paragraph:
  "list_ex (isTag ''w:p'') (tagChildren (fst (buildTableCellXml b cell)))"
proof (cases "c_content cell")
  case Nil
  then show ?thesis by (simp add: buildTableCellXml_def)
next
  case (Cons p ps)
  obtain y ys where ys: "fst (mapState buildParagraphXml b (c_content cell)) = y # ys"
    using mapState_length [of buildParagraphXml b "c_content cell"] Cons
    by (cases "fst (mapState buildParagraphXml b (c_content cell))") auto
  have "isTag ''w:p'' y"
    using mapState_paragraph_tags [of b "c_content cell"] ys by auto
  then show ?thesis using Cons ys by (simp add: buildTableCellXml_def Let_def)
qed

text \<open>
  Claim C1, at a document whose body is one table of one cell with an empty content
  list.  The cell is built with the synthesized paragraph \<open><w:p></w:p>\<close>, which has no
  run: in the document part every cell has a paragraph, but not every paragraph has a
  run.
\<close>

theorem empty_cell_paragraph_without_run:
  "fst (buildTableCellXml sampleBuilder emptyCell)
     = Tag ''w:tc'' []
         [Tag ''w:tcPr'' [] [Tag ''w:tcW'' [(''w:w'', S ''0''), (''w:type'', S ''auto'')] []],
          Tag ''w:p'' [] []] \<and>
   (case fst (build samplePlatform sampleStylesXml sampleBuilder sampleEmptyCellDocument)
           ''word/document.xml'' of
      Some (XmlPart document) \<Rightarrow> \<not> everyParagraphHasRun document \<and> everyCellHasParagraph document
    | _ \<Rightarrow> False)"
  by (simp add: build_def addImages_def addDocument_def documentXml_def addNumbering_def
        addDocumentRels_def addFixed_def sampleEmptyCellDocument_def sampleEmptyCellTable_def
        buildBodyElementXml_def buildTableXml_def buildTableRowXml_def buildTableCellXml_def
        cellPropertiesXml_def vMergeXml_def nonEmpty_def emptyCell_def tableGridXml_def
        gridColXml_def orNum_def orStr_def sectPrXml_def allRuns_def Let_def)

section \<open>The archive written by the builder\<close>






section \<open>The numbering fallback\<close>




text \<open>
  The test reads the list \<open>paragraphs\<close> only: a list paragraph inside a table cell does
  not bring the fallback about.
\<close>

lemma cell_paragraphs_not_consulted:
  "numberingXml sampleCellListDocument = Tag ''w:numbering'' [(''xmlns:w'', S ns_w)] []"
  by (simp add: numberingXml_def sampleCellListDocument_def)



section \<open>Preserved media and new images\<close>















end
